theory Spec2Isabelle
  imports Complex_Main "HOL-Library.Sublist"
begin

section \<open>The conversion service and its environment\<close>

text \<open>
  The service of \<^verbatim>\<open>docker/libreoffice/conversion-service.py\<close> is a Flask application
  around one \<^verbatim>\<open>LibreOfficeConverter\<close> object. Everything it does is an effect: it starts
  a process, talks to it over the UNO bridge, and reads, writes and deletes files. The
  embedding passes an explicit \<open>world\<close> through every function, and takes the answers of
  everything outside the repository (the office suite, the operating system, the
  interpreter, \<^verbatim>\<open>hashlib\<close>) from a record \<open>env\<close> of oracles. An oracle is indexed by the
  number of calls of its kind made so far, which the world counts, so that the same call
  may fail once and succeed later. A theorem that holds for every \<open>env\<close> holds however
  the outside behaves.

  Python text is represented by its UTF-8 encoding, a \<open>string\<close> of 8-bit characters:
  \<^verbatim>\<open>replace\<close>, \<^verbatim>\<open>in\<close>, \<^verbatim>\<open>find\<close> and slicing between found positions commute with the
  encoding, and \<^verbatim>\<open>str.encode()\<close> is the identity. A file holds bytes. A file opened
  in text mode is read with every CR LF and every CR turned into LF, and written with
  every LF turned into the line separator of the platform; a file that does not decode
  is an I/O fault of the read. The texts of exceptions are those of CPython 3.11. Log
  messages are not modelled.
\<close>

subsection \<open>Exceptions\<close>

datatype exn_class =
    NoConnectException | RecursionError | FileNotFoundError | FileExistsError
  | TypeError | AttributeError | ValueError | KeyError | OtherException

datatype exn = Exn exn_class string

fun exn_str :: "exn \<Rightarrow> string" where
  "exn_str (Exn c msg) = msg"

fun is_NoConnectException :: "exn \<Rightarrow> bool" where
  "is_NoConnectException (Exn c msg) = (c = NoConnectException)"

subsection \<open>Values, requests and responses\<close>

datatype json =
    JNull | JBool bool | JInt int | JFloat real | JStr string
  | JList "json list" | JObj "(string \<times> json) list"

datatype pyval = PyNone | PyBool bool

type_synonym path = string

datatype body = Json json | SendFile path string string

type_synonym response = "body \<times> nat"

record upload =
  filename :: string
  data :: string

record request =
  files :: "(string \<times> upload) list"
  get_json :: "exn + json"

subsection \<open>The world and the oracles\<close>

record world =
  fs :: "path \<Rightarrow> string option"
  now :: real
  restarts :: nat
  resolves :: nat
  conversions :: nat
  io_ops :: nat

record env =
  recursion_limit :: nat
  taskkill :: "nat \<Rightarrow> exn option"
  popen :: "nat \<Rightarrow> exn option"
  uno_resolve :: "nat \<Rightarrow> exn + nat"
  uno_desktop :: "nat \<Rightarrow> exn option"
  uno_load :: "nat \<Rightarrow> exn option"
  uno_props :: "nat \<Rightarrow> exn option"
  uno_store :: "nat \<Rightarrow> exn + string"
  uno_close :: "nat \<Rightarrow> exn option"
  io_fault :: "nat \<Rightarrow> exn option"
  written :: "nat \<Rightarrow> nat option"
  windows :: bool
  temp_name :: "nat \<Rightarrow> string \<Rightarrow> path"
  is_absolute :: "path \<Rightarrow> bool"
  sha256_hexdigest :: "string \<Rightarrow> string"
  py_str :: "json \<Rightarrow> string"

text \<open>
  \<open>restarts\<close> counts the calls of \<^verbatim>\<open>start_libreoffice_service\<close>, \<open>resolves\<close> the
  connection attempts of \<^verbatim>\<open>get_uno_context\<close>, \<open>conversions\<close> the calls of
  \<^verbatim>\<open>docx_to_html\<close> and \<^verbatim>\<open>html_to_docx\<close>, \<open>io_ops\<close> the file-system calls of the
  service itself. \<open>uno_resolve env k\<close> is the outcome of connection attempt \<open>k\<close> (the three
  calls of lines 64 to 70 taken together); \<open>uno_desktop\<close>, \<open>uno_load\<close>, \<open>uno_props\<close>,
  \<open>uno_store\<close> and \<open>uno_close\<close> are the outcomes of the remote calls of conversion \<open>j\<close>,
  \<open>None\<close> when the call completes; \<open>uno_store env j = Inr c\<close> when the export completes and
  writes \<open>c\<close>. \<open>io_fault env k\<close> is the exception of file-system call \<open>k\<close>, if the operating
  system raises one; when that call is a write, \<open>written env k\<close> says how far it came:
  \<open>None\<close> when the file could not be opened, \<open>Some n\<close> when it was opened (and so
  truncated) and \<open>n\<close> bytes reached it. \<open>windows\<close> is the platform, which decides
  \<^verbatim>\<open>os.linesep\<close>. \<open>recursion_limit\<close> is the number of nested activations of
  \<^verbatim>\<open>get_uno_context\<close> the interpreter still allows.
\<close>

subsection \<open>Sequencing of effects that may raise\<close>

type_synonym 'a action = "world \<Rightarrow> (exn + 'a) \<times> world"

definition returns :: "'a \<Rightarrow> 'a action" where
  "returns x w = (Inr x, w)"

definition raises :: "exn \<Rightarrow> 'a action" where
  "raises e w = (Inl e, w)"

definition and_then :: "'a action \<Rightarrow> ('a \<Rightarrow> 'b action) \<Rightarrow> 'b action" where
  "and_then m f w = (case m w of (Inl e, w') \<Rightarrow> (Inl e, w') | (Inr x, w') \<Rightarrow> f x w')"

subsection \<open>Process supervisor and bridge client\<close>

definition time_sleep :: "real \<Rightarrow> world \<Rightarrow> world" where
  "time_sleep d w = w\<lparr>now := now w + d\<rparr>"

text \<open>
  \<^verbatim>\<open>start_libreoffice_service\<close> (lines 33 to 59): kill, sleep 2, spawn, sleep 5; an
  exception of either subprocess call ends the \<^verbatim>\<open>try\<close> and is only logged.
\<close>

definition start_libreoffice_service :: "env \<Rightarrow> world \<Rightarrow> world" where
  "start_libreoffice_service env w =
     (let k = restarts w; w1 = w\<lparr>restarts := Suc k\<rparr> in
      case taskkill env k of
        Some e \<Rightarrow> w1
      | None \<Rightarrow>
          (let w2 = time_sleep 2 w1 in
           case popen env k of
             Some e \<Rightarrow> w2
           | None \<Rightarrow> time_sleep 5 w2))"

text \<open>
  \<^verbatim>\<open>__init__\<close> (lines 29 to 31) sets the port and starts the service; the module
  builds its one converter at import. The port names the socket in the command line and
  in the URL of the resolver, which are arguments of calls the oracles answer.
\<close>

definition soffice_port :: nat where
  "soffice_port = 2002"

definition LibreOfficeConverter_init :: "env \<Rightarrow> world \<Rightarrow> world" where
  "LibreOfficeConverter_init env w = start_libreoffice_service env w"

text \<open>
  \<^verbatim>\<open>get_uno_context\<close> (lines 61 to 76): on \<^verbatim>\<open>NoConnectException\<close> it restarts the
  service, sleeps 5 and calls itself; any other exception leaves the function. The first
  argument is the number of activations the interpreter still allows; the activation
  beyond it raises \<^verbatim>\<open>RecursionError\<close>.
\<close>

fun get_uno_context :: "env \<Rightarrow> nat \<Rightarrow> nat action" where
  "get_uno_context env 0 w =
     (Inl (Exn RecursionError ''maximum recursion depth exceeded''), w)"
| "get_uno_context env (Suc depth) w =
     (let w1 = w\<lparr>resolves := Suc (resolves w)\<rparr> in
      case uno_resolve env (resolves w) of
        Inr context \<Rightarrow> (Inr context, w1)
      | Inl e \<Rightarrow>
          if is_NoConnectException e
          then get_uno_context env depth (time_sleep 5 (start_libreoffice_service env w1))
          else (Inl e, w1))"

subsection \<open>Python string operations\<close>

abbreviation nl :: string where "nl \<equiv> [CHR 0x0A]"
abbreviation sq :: string where "sq \<equiv> [CHR 0x27]"
abbreviation dq :: string where "dq \<equiv> [CHR 0x22]"

text \<open>
  \<^verbatim>\<open>s.replace(old, new)\<close> replaces the occurrences of \<open>old\<close> found from left to right,
  without overlap (\<open>replace_scan\<close>, for an \<open>old\<close> that is not empty); with an empty
  \<open>old\<close> it puts \<open>new\<close> before every character and at the end. \<^verbatim>\<open>sub in s\<close> is \<open>sublist sub s\<close>. \<^verbatim>\<open>s.find(sub)\<close> is the least index of an
  occurrence, or -1. \<^verbatim>\<open>s[a:b]\<close> clamps both indices, a negative one counted from the end.
\<close>

fun replace_scan :: "string \<Rightarrow> string \<Rightarrow> string \<Rightarrow> string" where
  "replace_scan old new [] = []"
| "replace_scan old new (c # cs) =
     (if old \<noteq> [] \<and> prefix old (c # cs)
      then new @ replace_scan old new (drop (length old - 1) cs)
      else c # replace_scan old new cs)"

definition str_replace :: "string \<Rightarrow> string \<Rightarrow> string \<Rightarrow> string" where
  "str_replace s old new =
     (if old = [] then new @ concat (map (\<lambda>c. c # new) s) else replace_scan old new s)"

fun find_from :: "string \<Rightarrow> string \<Rightarrow> nat \<Rightarrow> int" where
  "find_from sub [] i = (if sub = [] then int i else - 1)"
| "find_from sub (c # cs) i =
     (if prefix sub (c # cs) then int i else find_from sub cs (Suc i))"

definition str_find :: "string \<Rightarrow> string \<Rightarrow> int" where
  "str_find s sub = find_from sub s 0"

definition slice_index :: "string \<Rightarrow> int \<Rightarrow> nat" where
  "slice_index s i =
     (let n = int (length s) in nat (if i < 0 then max 0 (n + i) else min n i))"

definition str_slice :: "string \<Rightarrow> int \<Rightarrow> int \<Rightarrow> string" where
  "str_slice s a b = drop (slice_index s a) (take (slice_index s b) s)"

subsection \<open>The file system\<close>

text \<open>
  Text mode (\<^verbatim>\<open>open\<close> without \<^verbatim>\<open>newline=\<close>): \<open>universal_newlines\<close> is what a read
  makes of the bytes of a file, \<open>to_linesep\<close> is what a write makes of a text.
\<close>

abbreviation CR :: char where "CR \<equiv> CHR 0x0D"
abbreviation LF :: char where "LF \<equiv> CHR 0x0A"

fun universal_newlines :: "string \<Rightarrow> string" where
  "universal_newlines [] = []"
| "universal_newlines [c] = (if c = CR then [LF] else [c])"
| "universal_newlines (c # d # cs) =
     (if c = CR
      then (if d = LF then LF # universal_newlines cs else LF # universal_newlines (d # cs))
      else c # universal_newlines (d # cs))"

definition linesep :: "env \<Rightarrow> string" where
  "linesep env = (if windows env then [CR, LF] else [LF])"

definition to_linesep :: "env \<Rightarrow> string \<Rightarrow> string" where
  "to_linesep env s = concat (map (\<lambda>c. if c = LF then linesep env else [c]) s)"

text \<open>
  Every file-system call of the service takes the next answer of \<open>io_fault\<close>. Opening a
  missing file for reading and unlinking a missing file raise \<^verbatim>\<open>FileNotFoundError\<close>.
  \<open>open_read\<close> is \<^verbatim>\<open>open(p, 'r', encoding='utf-8')\<close> with its \<^verbatim>\<open>read()\<close>. \<open>write_file\<close>
  opens a file for writing, which truncates it, and writes the bytes; when the call
  faults the file is as it was (the open failed) or holds the bytes that were written
  before the fault. \<open>open_write\<close> is the text-mode write of \<^verbatim>\<open>open(p, 'w',
  encoding='utf-8')\<close> and of the temporary file of line 336; \<open>file_save\<close> is the binary
  write of \<^verbatim>\<open>FileStorage.save\<close>. \<^verbatim>\<open>NamedTemporaryFile(suffix=..., delete=False)\<close> creates
  an empty file under the name the environment chooses; a name already taken raises
  \<^verbatim>\<open>FileExistsError\<close>.
\<close>

definition os_path_exists :: "path \<Rightarrow> world \<Rightarrow> bool" where
  "os_path_exists p w = (fs w p \<noteq> None)"

definition open_read :: "env \<Rightarrow> path \<Rightarrow> string action" where
  "open_read env p w =
     (let w1 = w\<lparr>io_ops := Suc (io_ops w)\<rparr> in
      case io_fault env (io_ops w) of
        Some e \<Rightarrow> (Inl e, w1)
      | None \<Rightarrow>
          (case fs w p of
             None \<Rightarrow>
               (Inl (Exn FileNotFoundError
                       (''[Errno 2] No such file or directory: '' @ sq @ p @ sq)), w1)
           | Some bytes \<Rightarrow> (Inr (universal_newlines bytes), w1)))"

definition write_file :: "env \<Rightarrow> path \<Rightarrow> string \<Rightarrow> unit action" where
  "write_file env p bytes w =
     (let w1 = w\<lparr>io_ops := Suc (io_ops w)\<rparr> in
      case io_fault env (io_ops w) of
        Some e \<Rightarrow>
          (Inl e,
           case written env (io_ops w) of
             None \<Rightarrow> w1
           | Some n \<Rightarrow> w1\<lparr>fs := (fs w)(p \<mapsto> take n bytes)\<rparr>)
      | None \<Rightarrow> (Inr (), w1\<lparr>fs := (fs w)(p \<mapsto> bytes)\<rparr>))"

definition open_write :: "env \<Rightarrow> path \<Rightarrow> string \<Rightarrow> unit action" where
  "open_write env p content = write_file env p (to_linesep env content)"

definition os_unlink :: "env \<Rightarrow> path \<Rightarrow> unit action" where
  "os_unlink env p w =
     (let w1 = w\<lparr>io_ops := Suc (io_ops w)\<rparr> in
      case io_fault env (io_ops w) of
        Some e \<Rightarrow> (Inl e, w1)
      | None \<Rightarrow>
          (case fs w p of
             None \<Rightarrow>
               (Inl (Exn FileNotFoundError
                       (''[Errno 2] No such file or directory: '' @ sq @ p @ sq)), w1)
           | Some bytes \<Rightarrow> (Inr (), w1\<lparr>fs := (fs w)(p := None)\<rparr>)))"

definition NamedTemporaryFile :: "env \<Rightarrow> string \<Rightarrow> path action" where
  "NamedTemporaryFile env sfx w =
     (let w1 = w\<lparr>io_ops := Suc (io_ops w)\<rparr> in
      case io_fault env (io_ops w) of
        Some e \<Rightarrow> (Inl e, w1)
      | None \<Rightarrow>
          (let name = temp_name env (io_ops w) sfx in
           case fs w name of
             Some bytes \<Rightarrow>
               (Inl (Exn FileExistsError ''[Errno 17] No usable temporary file name found''), w1)
           | None \<Rightarrow> (Inr name, w1\<lparr>fs := (fs w)(name \<mapsto> [])\<rparr>)))"

definition file_save :: "env \<Rightarrow> upload \<Rightarrow> path \<Rightarrow> unit action" where
  "file_save env file dst = write_file env dst (data file)"

definition as_uri :: "env \<Rightarrow> path \<Rightarrow> string action" where
  "as_uri env p =
     (if is_absolute env p then returns (''file://'' @ p)
      else raises (Exn ValueError ''relative path can't be expressed as a file URI''))"

subsection \<open>The HTML post-processor\<close>

text \<open>The replacement text of line 138.\<close>

definition preserve_block :: string where
  "preserve_block =
     nl @
     ''                <style>'' @ nl @
     ''                    /* Preserve exact dimensions and spacing */'' @ nl @
     ''                    body { margin: 0; padding: 0; -webkit-text-size-adjust: 100%; }'' @ nl @
     ''                    p { margin-bottom: 0; white-space: pre-wrap; }'' @ nl @
     ''                    /* Preserve font metrics */'' @ nl @
     ''                    * { line-height: normal !important; font-family: inherit !important; }'' @ nl @
     ''                    /* Preserve table layouts */'' @ nl @
     ''                    table { border-collapse: collapse; width: auto !important; table-layout: fixed; }'' @ nl @
     ''                    td, th { padding: inherit; border-spacing: 0; }'' @ nl @
     ''                    /* Preserve list formatting */'' @ nl @
     ''                    ul, ol { margin: 0; padding-left: 40px; list-style-position: outside; }'' @ nl @
     ''                    /* Preserve image dimensions */'' @ nl @
     ''                    img { max-width: none; height: auto; display: inline-block; }'' @ nl @
     ''                    /* Preserve section breaks and page layout */'' @ nl @
     ''                    div { page-break-inside: avoid; }'' @ nl @
     ''                    br { display: block; }'' @ nl @
     ''                    /* Preserve whitespace */'' @ nl @
     ''                    pre { white-space: pre-wrap; margin: 0; }'' @ nl @
     ''                    /* Preserve text positioning */'' @ nl @
     ''                    span { position: relative; }'' @ nl @
     ''                </style>'' @ nl @
     ''                </head>''"

text \<open>The text appended to the first style sheet at line 168.\<close>

definition box_sizing_block :: string where
  "box_sizing_block =
     nl @
     ''                    /* Preserve exact formatting */'' @ nl @
     ''                    body * {'' @ nl @
     ''                        box-sizing: border-box !important;'' @ nl @
     ''                        -webkit-box-sizing: border-box !important;'' @ nl @
     ''                        -moz-box-sizing: border-box !important;'' @ nl @
     ''                    }'' @ nl @
     ''                ''"

text \<open>
  The replacement text of line 235: the head tag and two meta tags, then the style block.
\<close>

definition style_block :: string where
  "style_block =
     ''<style>'' @ nl @
     ''                    body { font-family: '' @ sq @ ''Segoe UI'' @ sq @ '', Tahoma, Geneva, Verdana, sans-serif; line-height: 1.6; margin: 0; padding: 20px; }'' @ nl @
     ''                    .resume-container { max-width: 800px; margin: 0 auto; background: white; }'' @ nl @
     ''                    table { width: 100%; border-collapse: collapse; margin: 10px 0; }'' @ nl @
     ''                    td, th { padding: 8px; text-align: left; vertical-align: top; }'' @ nl @
     ''                    h1, h2, h3 { color: #333; margin-top: 20px; margin-bottom: 10px; }'' @ nl @
     ''                    p { margin: 8px 0; }'' @ nl @
     ''                    ul, ol { margin: 8px 0; padding-left: 20px; }'' @ nl @
     ''                    .page-break { page-break-before: always; }'' @ nl @
     ''                </style>''"

definition head_prefix :: string where
  "head_prefix =
     ''<head>'' @ nl @
     ''                <meta charset='' @ dq @ ''UTF-8'' @ dq @ ''>'' @ nl @
     ''                <meta name='' @ dq @ ''viewport'' @ dq @ '' content='' @ dq @ ''width=device-width, initial-scale=1.0'' @ dq @ ''>'' @ nl @
     ''                ''"

definition head_replacement :: string where
  "head_replacement = head_prefix @ style_block"

text \<open>
  The first \<^verbatim>\<open>def enhance_html_output\<close> of the class body (lines 127 to 187). Its
  \<^verbatim>\<open>try\<close> has two handlers for \<^verbatim>\<open>Exception\<close>; the first one takes every exception and
  returns \<^verbatim>\<open>True\<close>. Without an exception the function returns \<^verbatim>\<open>None\<close>.
\<close>

definition enhance_html_output_127 :: "env \<Rightarrow> path \<Rightarrow> world \<Rightarrow> pyval \<times> world" where
  "enhance_html_output_127 env html_path w =
     (if \<not> os_path_exists html_path w then (PyNone, w)
      else
        case and_then (open_read env html_path) (\<lambda>content0.
               let content1 = str_replace content0 ''</head>'' preserve_block;
                   content2 =
                     (if sublist ''<style>'' content1 \<and> sublist ''</style>'' content1
                      then
                        let style_start = str_find content1 ''<style>'' + 7;
                            style_end = str_find content1 ''</style>'';
                            styles = str_slice content1 style_start style_end
                        in str_replace content1 styles (styles @ box_sizing_block)
                      else content1)
               in open_write env html_path content2) w of
          (Inr u, w') \<Rightarrow> (PyNone, w')
        | (Inl e, w') \<Rightarrow> (PyBool True, w'))"

text \<open>
  The second \<^verbatim>\<open>def enhance_html_output\<close> (lines 226 to 254): one replacement of
  \<^verbatim>\<open><head>\<close>; every exception is logged and the function returns \<^verbatim>\<open>None\<close>.
\<close>

definition enhance_html_output_226 :: "env \<Rightarrow> path \<Rightarrow> world \<Rightarrow> pyval \<times> world" where
  "enhance_html_output_226 env html_path w =
     (case and_then (open_read env html_path) (\<lambda>content.
             let enhanced_content = str_replace content ''<head>'' head_replacement
             in open_write env html_path enhanced_content) w of
        (Inr u, w') \<Rightarrow> (PyNone, w')
      | (Inl e, w') \<Rightarrow> (PyNone, w'))"

text \<open>
  A class body runs from top to bottom and every \<^verbatim>\<open>def\<close> binds its name in the class
  namespace, over an earlier binding of the same name. The body of
  \<^verbatim>\<open>LibreOfficeConverter\<close> is the list of its definitions, each with the line of its
  \<^verbatim>\<open>def\<close>; \<^verbatim>\<open>self.enhance_html_output(html_path)\<close> runs the definition the namespace
  holds. A name that is not bound raises \<^verbatim>\<open>AttributeError\<close>.
\<close>

definition LibreOfficeConverter_body :: "(string \<times> nat) list" where
  "LibreOfficeConverter_body =
     [(''__init__'', 29), (''start_libreoffice_service'', 33), (''get_uno_context'', 61),
      (''docx_to_html'', 78), (''enhance_html_output'', 127), (''html_to_docx'', 189),
      (''enhance_html_output'', 226), (''apply_template_styles'', 256)]"

definition class_namespace :: "(string \<times> nat) list \<Rightarrow> string \<Rightarrow> nat option" where
  "class_namespace defs = foldl (\<lambda>ns (name, line). ns(name \<mapsto> line)) Map.empty defs"

definition enhance_html_output :: "env \<Rightarrow> path \<Rightarrow> pyval action" where
  "enhance_html_output env html_path w =
     (case class_namespace LibreOfficeConverter_body ''enhance_html_output'' of
        None \<Rightarrow>
          (Inl (Exn AttributeError (sq @ ''LibreOfficeConverter'' @ sq
                  @ '' object has no attribute '' @ sq @ ''enhance_html_output'' @ sq)), w)
      | Some line \<Rightarrow>
          if line = 127 then (case enhance_html_output_127 env html_path w of (v, w') \<Rightarrow> (Inr v, w'))
          else if line = 226 then (case enhance_html_output_226 env html_path w of (v, w') \<Rightarrow> (Inr v, w'))
          else (Inl (Exn TypeError (sq @ ''int'' @ sq @ '' object is not callable'')), w))"

definition apply_template_styles :: "path \<Rightarrow> world \<Rightarrow> world" where
  "apply_template_styles template_path w = w"

subsection \<open>The converter\<close>

definition uno_call :: "exn option \<Rightarrow> unit action" where
  "uno_call r = (case r of Some e \<Rightarrow> raises e | None \<Rightarrow> returns ())"

definition storeToURL :: "env \<Rightarrow> nat \<Rightarrow> path \<Rightarrow> unit action" where
  "storeToURL env j p w =
     (case uno_store env j of
        Inl e \<Rightarrow> (Inl e, w)
      | Inr content \<Rightarrow> (Inr (), w\<lparr>fs := (fs w)(p \<mapsto> content)\<rparr>))"

text \<open>
  \<^verbatim>\<open>docx_to_html\<close> (lines 78 to 125). \<open>docx_to_html_try\<close> is the body of its \<^verbatim>\<open>try\<close>:
  the bridge context, the desktop, the load of the document, the two property
  assignments, the export, the close, and the post-processing.
\<close>

definition docx_to_html_try :: "env \<Rightarrow> path \<Rightarrow> path \<Rightarrow> bool action" where
  "docx_to_html_try env docx_path html_path w =
     (let j = conversions w in
      and_then (get_uno_context env (recursion_limit env)) (\<lambda>context.
      and_then (uno_call (uno_desktop env j)) (\<lambda>desktop.
      and_then (as_uri env docx_path) (\<lambda>doc_url.
      and_then (uno_call (uno_load env j)) (\<lambda>document.
      and_then (as_uri env html_path) (\<lambda>html_url.
      and_then (uno_call (uno_props env j)) (\<lambda>doc_props.
      and_then (storeToURL env j html_path) (\<lambda>stored.
      and_then (uno_call (uno_close env j)) (\<lambda>closed.
      and_then (enhance_html_output env html_path) (\<lambda>enhanced.
      returns True)))))))))
        (w\<lparr>conversions := Suc j\<rparr>))"

definition docx_to_html :: "env \<Rightarrow> path \<Rightarrow> path \<Rightarrow> world \<Rightarrow> bool \<times> world" where
  "docx_to_html env docx_path html_path w =
     (case docx_to_html_try env docx_path html_path w of
        (Inr b, w') \<Rightarrow> (b, w')
      | (Inl e, w') \<Rightarrow> (False, w'))"

text \<open>\<^verbatim>\<open>html_to_docx\<close> (lines 189 to 224), in the same way.\<close>

definition html_to_docx_try :: "env \<Rightarrow> path \<Rightarrow> path \<Rightarrow> path option \<Rightarrow> bool action" where
  "html_to_docx_try env html_path docx_path template_path w =
     (let j = conversions w in
      and_then (get_uno_context env (recursion_limit env)) (\<lambda>context.
      and_then (uno_call (uno_desktop env j)) (\<lambda>desktop.
      and_then (as_uri env html_path) (\<lambda>html_url.
      and_then (uno_call (uno_load env j)) (\<lambda>document.
      and_then (\<lambda>w1.
         case template_path of
           None \<Rightarrow> (Inr (), w1)
         | Some t \<Rightarrow>
             if t \<noteq> [] \<and> os_path_exists t w1 then (Inr (), apply_template_styles t w1)
             else (Inr (), w1)) (\<lambda>templated.
      and_then (as_uri env docx_path) (\<lambda>docx_url.
      and_then (storeToURL env j docx_path) (\<lambda>stored.
      and_then (uno_call (uno_close env j)) (\<lambda>closed.
      returns True))))))))
        (w\<lparr>conversions := Suc j\<rparr>))"

definition html_to_docx :: "env \<Rightarrow> path \<Rightarrow> path \<Rightarrow> path option \<Rightarrow> world \<Rightarrow> bool \<times> world" where
  "html_to_docx env html_path docx_path template_path w =
     (case html_to_docx_try env html_path docx_path template_path w of
        (Inr b, w') \<Rightarrow> (b, w')
      | (Inl e, w') \<Rightarrow> (False, w'))"

subsection \<open>The HTTP layer\<close>

text \<open>
  A \<open>JObj\<close> is a Python dictionary: its items in insertion order, every key once.
  \<open>truthy\<close> is the truth value \<^verbatim>\<open>not\<close> negates, \<open>json_contains\<close> is \<^verbatim>\<open>key in data\<close>,
  \<open>json_getitem\<close> is \<^verbatim>\<open>data[key]\<close> and \<open>json_get\<close> is \<^verbatim>\<open>data.get(key, default)\<close>, each with
  the exception Python raises on a value of another type.
\<close>

fun type_name :: "json \<Rightarrow> string" where
  "type_name JNull = ''NoneType''"
| "type_name (JBool b) = ''bool''"
| "type_name (JInt i) = ''int''"
| "type_name (JFloat r) = ''float''"
| "type_name (JStr s) = ''str''"
| "type_name (JList xs) = ''list''"
| "type_name (JObj kvs) = ''dict''"

fun truthy :: "json \<Rightarrow> bool" where
  "truthy JNull = False"
| "truthy (JBool b) = b"
| "truthy (JInt i) = (i \<noteq> 0)"
| "truthy (JFloat r) = (r \<noteq> 0)"
| "truthy (JStr s) = (s \<noteq> [])"
| "truthy (JList xs) = (xs \<noteq> [])"
| "truthy (JObj kvs) = (kvs \<noteq> [])"

fun json_contains :: "string \<Rightarrow> json \<Rightarrow> exn + bool" where
  "json_contains k (JObj kvs) = Inr (map_of kvs k \<noteq> None)"
| "json_contains k (JList xs) = Inr (JStr k \<in> set xs)"
| "json_contains k (JStr s) = Inr (sublist k s)"
| "json_contains k v =
     Inl (Exn TypeError (''argument of type '' @ sq @ type_name v @ sq @ '' is not iterable''))"

fun json_getitem :: "json \<Rightarrow> string \<Rightarrow> exn + json" where
  "json_getitem (JObj kvs) k =
     (case map_of kvs k of None \<Rightarrow> Inl (Exn KeyError (sq @ k @ sq)) | Some v \<Rightarrow> Inr v)"
| "json_getitem (JList xs) k =
     Inl (Exn TypeError ''list indices must be integers or slices, not str'')"
| "json_getitem (JStr s) k =
     Inl (Exn TypeError (''string indices must be integers, not '' @ sq @ ''str'' @ sq))"
| "json_getitem v k =
     Inl (Exn TypeError (sq @ type_name v @ sq @ '' object is not subscriptable''))"

fun json_get :: "json \<Rightarrow> string \<Rightarrow> json \<Rightarrow> exn + json" where
  "json_get (JObj kvs) k d = (case map_of kvs k of None \<Rightarrow> Inr d | Some v \<Rightarrow> Inr v)"
| "json_get v k d =
     Inl (Exn AttributeError
            (sq @ type_name v @ sq @ '' object has no attribute '' @ sq @ ''get'' @ sq))"

definition getlist :: "string \<Rightarrow> (string \<times> upload) list \<Rightarrow> upload list" where
  "getlist k form = map snd (filter (\<lambda>item. fst item = k) form)"

definition jsonify :: "(string \<times> json) list \<Rightarrow> body" where
  "jsonify items = Json (JObj items)"

definition of_result :: "exn + 'a \<Rightarrow> 'a action" where
  "of_result r = (case r of Inl e \<Rightarrow> raises e | Inr x \<Rightarrow> returns x)"

definition no_raise :: "(world \<Rightarrow> 'a \<times> world) \<Rightarrow> 'a action" where
  "no_raise f w = (case f w of (x, w') \<Rightarrow> (Inr x, w'))"

text \<open>
  The handler of every conversion endpoint is one \<^verbatim>\<open>try\<close> whose \<^verbatim>\<open>except Exception\<close>
  answers \<^verbatim>\<open>jsonify({'error': str(e)}), 500\<close>.
\<close>

definition except_500 :: "response action \<Rightarrow> world \<Rightarrow> response \<times> world" where
  "except_500 body w =
     (case body w of
        (Inr r, w') \<Rightarrow> (r, w')
      | (Inl e, w') \<Rightarrow> ((jsonify [(''error'', JStr (exn_str e))], 500), w'))"

text \<open>\<^verbatim>\<open>health_check\<close> (lines 268 to 275).\<close>

definition health_check :: "world \<Rightarrow> response \<times> world" where
  "health_check w =
     ((jsonify [(''status'', JStr ''healthy''), (''service'', JStr ''libreoffice-converter''),
                (''timestamp'', JFloat (now w))], 200), w)"

text \<open>\<^verbatim>\<open>convert_docx_to_html\<close> (lines 277 to 322).\<close>

definition convert_docx_to_html_try :: "env \<Rightarrow> request \<Rightarrow> response action" where
  "convert_docx_to_html_try env req =
     (case map_of (files req) ''file'' of
        None \<Rightarrow> returns (jsonify [(''error'', JStr ''No file provided'')], 400)
      | Some file \<Rightarrow>
          if filename file = [] then returns (jsonify [(''error'', JStr ''No file selected'')], 400)
          else
            and_then (NamedTemporaryFile env ''.docx'') (\<lambda>docx_path.
            and_then (file_save env file docx_path) (\<lambda>saved.
            and_then (NamedTemporaryFile env ''.html'') (\<lambda>html_path.
            and_then (no_raise (docx_to_html env docx_path html_path)) (\<lambda>success w.
              if success \<and> os_path_exists html_path w
              then
                and_then (open_read env html_path) (\<lambda>html_content.
                let content_hash = sha256_hexdigest env html_content in
                and_then (os_unlink env docx_path) (\<lambda>unlinked_docx.
                and_then (os_unlink env html_path) (\<lambda>unlinked_html w'.
                  returns (jsonify [(''success'', JBool True), (''html'', JStr html_content),
                                    (''hash'', JStr content_hash),
                                    (''timestamp'', JFloat (now w'))], 200) w'))) w
              else returns (jsonify [(''error'', JStr ''Conversion failed'')], 500) w)))))"

definition convert_docx_to_html :: "env \<Rightarrow> request \<Rightarrow> world \<Rightarrow> response \<times> world" where
  "convert_docx_to_html env req = except_500 (convert_docx_to_html_try env req)"

text \<open>
  \<^verbatim>\<open>convert_html_to_docx\<close> (lines 324 to 362). Writing a value that is not a string to
  the temporary file raises \<^verbatim>\<open>TypeError\<close>. The f-string of line 344 formats a template
  name that is not a string with \<open>py_str\<close>.
\<close>

definition template_path_of :: "env \<Rightarrow> json \<Rightarrow> path option" where
  "template_path_of env template_name =
     (if template_name \<noteq> JStr ''default''
      then Some (''/app/templates/''
                 @ (case template_name of JStr s \<Rightarrow> s | v \<Rightarrow> py_str env v) @ ''.dotx'')
      else None)"

definition convert_html_to_docx_try :: "env \<Rightarrow> request \<Rightarrow> response action" where
  "convert_html_to_docx_try env req =
     and_then (of_result (get_json req)) (\<lambda>data.
     and_then (if \<not> truthy data then returns True
               else and_then (of_result (json_contains ''html'' data)) (\<lambda>b. returns (\<not> b)))
       (\<lambda>missing.
     if missing then returns (jsonify [(''error'', JStr ''No HTML content provided'')], 400)
     else
       and_then (of_result (json_getitem data ''html'')) (\<lambda>html_content.
       and_then (of_result (json_get data ''template'' (JStr ''default''))) (\<lambda>template_name.
       and_then (NamedTemporaryFile env ''.html'') (\<lambda>html_path.
       and_then (case html_content of
                   JStr s \<Rightarrow> open_write env html_path s
                 | v \<Rightarrow> raises (Exn TypeError
                          (''write() argument must be str, not '' @ type_name v)))
         (\<lambda>wrote.
       and_then (NamedTemporaryFile env ''.docx'') (\<lambda>docx_path.
       let template_path = template_path_of env template_name in
       and_then (no_raise (html_to_docx env html_path docx_path template_path)) (\<lambda>success w.
         if success \<and> os_path_exists docx_path w
         then returns (SendFile docx_path ''resume.docx''
                  ''application/vnd.openxmlformats-officedocument.wordprocessingml.document'',
                  200) w
         else returns (jsonify [(''error'', JStr ''Conversion failed'')], 500) w))))))))"

definition convert_html_to_docx :: "env \<Rightarrow> request \<Rightarrow> world \<Rightarrow> response \<times> world" where
  "convert_html_to_docx env req = except_500 (convert_html_to_docx_try env req)"

text \<open>
  \<^verbatim>\<open>batch_convert\<close> (lines 364 to 413). \<open>batch_file\<close> is the body of the loop for one
  file and gives the entry appended to \<^verbatim>\<open>results\<close>; \<open>batch_loop\<close> is the loop.
\<close>

definition batch_file :: "env \<Rightarrow> upload \<Rightarrow> json action" where
  "batch_file env file =
     and_then (NamedTemporaryFile env ''.docx'') (\<lambda>docx_path.
     and_then (file_save env file docx_path) (\<lambda>saved.
     and_then (NamedTemporaryFile env ''.html'') (\<lambda>html_path.
     and_then (no_raise (docx_to_html env docx_path html_path)) (\<lambda>success.
     and_then (if success
               then and_then (open_read env html_path) (\<lambda>html_content.
                      returns (JObj [(''filename'', JStr (filename file)), (''success'', JBool True),
                                     (''html'', JStr html_content),
                                     (''hash'', JStr (sha256_hexdigest env html_content))]))
               else returns (JObj [(''filename'', JStr (filename file)), (''success'', JBool False),
                                   (''error'', JStr ''Conversion failed'')])) (\<lambda>entry.
     and_then (os_unlink env docx_path) (\<lambda>unlinked_docx.
     and_then (os_unlink env html_path) (\<lambda>unlinked_html.
     returns entry)))))))"

fun batch_loop :: "env \<Rightarrow> upload list \<Rightarrow> json list \<Rightarrow> json list action" where
  "batch_loop env [] results = returns results"
| "batch_loop env (file # rest) results =
     and_then (batch_file env file) (\<lambda>entry. batch_loop env rest (results @ [entry]))"

definition batch_convert_try :: "env \<Rightarrow> request \<Rightarrow> response action" where
  "batch_convert_try env req =
     (let uploads = getlist ''files'' (files req) in
      if uploads = [] then returns (jsonify [(''error'', JStr ''No files provided'')], 400)
      else
        and_then (batch_loop env uploads []) (\<lambda>results.
        returns (jsonify [(''success'', JBool True), (''results'', JList results),
                          (''processed'', JInt (int (length results)))], 200)))"

definition batch_convert :: "env \<Rightarrow> request \<Rightarrow> world \<Rightarrow> response \<times> world" where
  "batch_convert env req = except_500 (batch_convert_try env req)"

subsection \<open>Properties the statements use\<close>

text \<open>
  A connection attempt is refused when it raises \<^verbatim>\<open>NoConnectException\<close>, the one
  exception \<^verbatim>\<open>get_uno_context\<close> answers with a restart.
\<close>

definition refused :: "exn + nat \<Rightarrow> bool" where
  "refused r = (case r of Inl e \<Rightarrow> is_NoConnectException e | Inr c \<Rightarrow> False)"

text \<open>
  The entry of the batch response for one uploaded file: the failure entry, or the success
  entry with the hash of the very \<^verbatim>\<open>html\<close> it carries.
\<close>

definition is_entry_for :: "env \<Rightarrow> upload \<Rightarrow> json \<Rightarrow> bool" where
  "is_entry_for env file entry =
     (entry = JObj [(''filename'', JStr (filename file)), (''success'', JBool False),
                    (''error'', JStr ''Conversion failed'')]
      \<or> (case json_getitem entry ''html'' of
            Inr (JStr html) \<Rightarrow>
              entry = JObj [(''filename'', JStr (filename file)), (''success'', JBool True),
                            (''html'', JStr html), (''hash'', JStr (sha256_hexdigest env html))]
          | other \<Rightarrow> False))"

text \<open>
  The remote calls both conversions make: the bridge context, the desktop, the load, the
  export and the close. They complete when none of them raises.
\<close>

definition remote_calls_complete :: "env \<Rightarrow> world \<Rightarrow> bool" where
  "remote_calls_complete env w =
     (\<not> isl (fst (get_uno_context env (recursion_limit env) w))
      \<and> uno_desktop env (conversions w) = None
      \<and> uno_load env (conversions w) = None
      \<and> \<not> isl (uno_store env (conversions w))
      \<and> uno_close env (conversions w) = None)"

text \<open>
  The conversion the batch loop makes for a file when it starts on it in world \<open>w\<close>:
  its two temporary files are the next and the next but one file the service creates, and
  it succeeds when both names are absolute and every remote call of it completes.
  \<open>world_before env uploads i w\<close> is the world the loop that started in \<open>w\<close> has reached
  when it starts on file \<open>i\<close>. \<open>entry_reports\<close> says that an entry is the one the loop
  appends for a file whose conversion had the given result.
\<close>

definition batch_file_converts :: "env \<Rightarrow> world \<Rightarrow> bool" where
  "batch_file_converts env w =
     (remote_calls_complete env w \<and> uno_props env (conversions w) = None
      \<and> is_absolute env (temp_name env (io_ops w) ''.docx'')
      \<and> is_absolute env (temp_name env (io_ops w + 2) ''.html''))"

definition world_before :: "env \<Rightarrow> upload list \<Rightarrow> nat \<Rightarrow> world \<Rightarrow> world" where
  "world_before env uploads i w = snd (batch_loop env (take i uploads) [] w)"

definition entry_reports :: "env \<Rightarrow> upload \<Rightarrow> bool \<Rightarrow> json \<Rightarrow> bool" where
  "entry_reports env file converted entry =
     (if converted
      then (case json_getitem entry ''html'' of
              Inr (JStr html) \<Rightarrow>
                entry = JObj [(''filename'', JStr (filename file)), (''success'', JBool True),
                              (''html'', JStr html), (''hash'', JStr (sha256_hexdigest env html))]
            | other \<Rightarrow> False)
      else entry = JObj [(''filename'', JStr (filename file)), (''success'', JBool False),
                         (''error'', JStr ''Conversion failed'')])"

subsection \<open>Example environments and requests\<close>

text \<open>
  \<open>world0\<close> has no file and no call made. In \<open>env0\<close> the office suite answers every call
  and exports a small page with a head; the variants refuse the first two connections,
  fail to load, fail to close, or export a page without a head.
\<close>

definition world0 :: world where
  "world0 = \<lparr>fs = (\<lambda>p. None), now = 0, restarts = 0, resolves = 0, conversions = 0, io_ops = 0\<rparr>"

definition env0 :: env where
  "env0 = \<lparr>recursion_limit = 1000, taskkill = (\<lambda>k. None), popen = (\<lambda>k. None),
     uno_resolve = (\<lambda>k. Inr 0), uno_desktop = (\<lambda>j. None), uno_load = (\<lambda>j. None),
     uno_props = (\<lambda>j. None),
     uno_store = (\<lambda>j. Inr ''<html><head><title>cv</title></head><body><p>cv</p></body></html>''),
     uno_close = (\<lambda>j. None), io_fault = (\<lambda>k. None), written = (\<lambda>k. None),
     windows = False,
     temp_name = (\<lambda>k sfx. ''/tmp/tmp'' @ replicate k CHR ''x'' @ sfx),
     is_absolute = (\<lambda>p. take 1 p = ''/''),
     sha256_hexdigest = (\<lambda>bytes. ''digest of '' @ bytes), py_str = (\<lambda>v. ''None'')\<rparr>"

definition env_refused_twice :: env where
  "env_refused_twice =
     env0\<lparr>uno_resolve := (\<lambda>k. if k < 2 then Inl (Exn NoConnectException ''refused'') else Inr 0)\<rparr>"

definition env_load_fails :: env where
  "env_load_fails = env0\<lparr>uno_load := (\<lambda>j. Some (Exn OtherException ''load failed''))\<rparr>"

definition env_close_fails :: env where
  "env_close_fails = env0\<lparr>uno_close := (\<lambda>j. Some (Exn OtherException ''close failed''))\<rparr>"

definition env_no_head :: env where
  "env_no_head = env0\<lparr>uno_store := (\<lambda>j. Inr ''<html><body><p>cv</p></body></html>'')\<rparr>"

definition env_second_load_fails :: env where
  "env_second_load_fails =
     env_no_head\<lparr>uno_load := (\<lambda>j. if j = 1 then Some (Exn OtherException ''load failed'')
                                  else None)\<rparr>"

definition cv_docx :: upload where
  "cv_docx = \<lparr>filename = ''cv.docx'', data = ''PK''\<rparr>"

definition req_docx :: request where
  "req_docx = \<lparr>files = [(''file'', cv_docx)],
                get_json = Inl (Exn OtherException ''415 Unsupported Media Type'')\<rparr>"

definition req_batch :: request where
  "req_batch = \<lparr>files = [(''files'', cv_docx)],
                 get_json = Inl (Exn OtherException ''415 Unsupported Media Type'')\<rparr>"

definition req_html :: request where
  "req_html = \<lparr>files = [], get_json = Inr (JObj [(''html'', JStr ''<p>cv</p>'')])\<rparr>"

definition req_empty :: request where
  "req_empty = \<lparr>files = [], get_json = Inr (JObj [(''template'', JStr ''modern'')])\<rparr>"

text \<open>\<open>world_page\<close> holds one exported page, with a head and with CR LF line ends.\<close>

definition page_bytes :: string where
  "page_bytes = ''<html>'' @ [CR, LF] @ ''<head></head>'' @ [CR, LF] @ ''</html>''"

definition world_page :: world where
  "world_page = world0\<lparr>fs := (fs world0)(''/tmp/cv.html'' \<mapsto> page_bytes)\<rparr>"

text \<open>A request whose file part has an empty filename, and a batch of two files.\<close>

definition req_unnamed :: request where
  "req_unnamed = \<lparr>files = [(''file'', \<lparr>filename = [], data = ''PK''\<rparr>)],
                   get_json = Inl (Exn OtherException ''415 Unsupported Media Type'')\<rparr>"

definition letter_docx :: upload where
  "letter_docx = \<lparr>filename = ''letter.docx'', data = ''PK''\<rparr>"

definition req_batch2 :: request where
  "req_batch2 = \<lparr>files = [(''files'', cv_docx), (''files'', letter_docx)],
                  get_json = Inl (Exn OtherException ''415 Unsupported Media Type'')\<rparr>"

section \<open>Frame and evaluation lemmas\<close>

lemma start_fields [simp]:
  "restarts (start_libreoffice_service env w) = Suc (restarts w)"
  "resolves (start_libreoffice_service env w) = resolves w"
  "conversions (start_libreoffice_service env w) = conversions w"
  "io_ops (start_libreoffice_service env w) = io_ops w"
  "fs (start_libreoffice_service env w) = fs w"
  by (simp_all add: start_libreoffice_service_def time_sleep_def Let_def split: option.splits)

lemma sleep_fields [simp]:
  "restarts (time_sleep d w) = restarts w"
  "resolves (time_sleep d w) = resolves w"
  "conversions (time_sleep d w) = conversions w"
  "io_ops (time_sleep d w) = io_ops w"
  "fs (time_sleep d w) = fs w"
  by (simp_all add: time_sleep_def)

lemma get_uno_context_frame:
  "conversions (snd (get_uno_context env depth w)) = conversions w
   \<and> io_ops (snd (get_uno_context env depth w)) = io_ops w
   \<and> fs (snd (get_uno_context env depth w)) = fs w"
  by (induction env depth w rule: get_uno_context.induct)
     (auto simp: Let_def split: sum.splits)

text \<open>
  The outcome of the bridge client depends on the world through the number of connection
  attempts made so far only, and on the environment through \<open>uno_resolve\<close> only.
\<close>

lemma get_uno_context_same_resolver:
  "resolves w = resolves w' \<Longrightarrow> uno_resolve env = uno_resolve env' \<Longrightarrow>
     fst (get_uno_context env depth w) = fst (get_uno_context env' depth w')"
proof (induction depth arbitrary: w w')
  case 0
  show ?case by simp
next
  case (Suc depth)
  let ?v = "time_sleep 5 (start_libreoffice_service env (w\<lparr>resolves := Suc (resolves w)\<rparr>))"
  let ?v' = "time_sleep 5 (start_libreoffice_service env' (w'\<lparr>resolves := Suc (resolves w')\<rparr>))"
  have "resolves ?v = resolves ?v'" using Suc.prems by simp
  then have "fst (get_uno_context env depth ?v) = fst (get_uno_context env' depth ?v')"
    using Suc.prems(2) by (rule Suc.IH)
  then show ?case using Suc.prems
    by (simp add: Let_def split: sum.splits)
qed

lemma get_uno_context_conversions [simp]:
  "fst (get_uno_context env depth (w\<lparr>conversions := c\<rparr>)) = fst (get_uno_context env depth w)"
  by (rule get_uno_context_same_resolver) simp_all

lemma get_uno_fst:
  "get_uno_context env depth (w\<lparr>conversions := c\<rparr>) = (r, w') \<Longrightarrow>
     fst (get_uno_context env depth w) = r"
  using get_uno_context_conversions [of env depth c w] by simp

lemma bound_method: "class_namespace LibreOfficeConverter_body ''enhance_html_output'' = Some 226"
  by (simp add: class_namespace_def LibreOfficeConverter_body_def)

lemma enhance_html_output_bound:
  "enhance_html_output env html_path w =
     (Inr (fst (enhance_html_output_226 env html_path w)), snd (enhance_html_output_226 env html_path w))"
  by (simp add: enhance_html_output_def bound_method split: prod.splits)

lemma docx_to_html_iff:
  "fst (docx_to_html env docx_path html_path w) \<longleftrightarrow>
     (\<exists>context. fst (get_uno_context env (recursion_limit env) w) = Inr context)
     \<and> uno_desktop env (conversions w) = None
     \<and> is_absolute env docx_path
     \<and> uno_load env (conversions w) = None
     \<and> is_absolute env html_path
     \<and> uno_props env (conversions w) = None
     \<and> (\<exists>content. uno_store env (conversions w) = Inr content)
     \<and> uno_close env (conversions w) = None"
  by (auto simp: docx_to_html_def docx_to_html_try_def Let_def and_then_def
        uno_call_def as_uri_def returns_def raises_def
        storeToURL_def enhance_html_output_bound
      split: prod.splits sum.splits option.splits if_splits
      dest: get_uno_fst)

lemma html_to_docx_iff:
  "fst (html_to_docx env html_path docx_path template_path w) \<longleftrightarrow>
     (\<exists>context. fst (get_uno_context env (recursion_limit env) w) = Inr context)
     \<and> uno_desktop env (conversions w) = None
     \<and> is_absolute env html_path
     \<and> uno_load env (conversions w) = None
     \<and> is_absolute env docx_path
     \<and> (\<exists>content. uno_store env (conversions w) = Inr content)
     \<and> uno_close env (conversions w) = None"
  by (auto simp: html_to_docx_def html_to_docx_try_def Let_def and_then_def
        uno_call_def as_uri_def returns_def raises_def
        storeToURL_def apply_template_styles_def
      split: prod.splits sum.splits option.splits if_splits
      dest: get_uno_fst)

lemma replace_scan_sublist:
  "old \<noteq> [] \<Longrightarrow> sublist old s \<Longrightarrow> sublist new (replace_scan old new s)"
proof (induction old new s rule: replace_scan.induct)
  case (1 old new)
  then show ?case by simp
next
  case (2 old new c cs)
  show ?case
  proof (cases "prefix old (c # cs)")
    case True
    with "2.prems" show ?thesis by simp
  next
    case False
    with "2.prems" have "sublist old cs" by (simp add: sublist_Cons_right)
    with 2 False have "sublist new (replace_scan old new cs)" by simp
    then have "sublist new (c # replace_scan old new cs)" by (simp add: sublist_Cons_right)
    with False show ?thesis by simp
  qed
qed

lemma replace_scan_absent:
  "\<not> sublist old s \<Longrightarrow> replace_scan old new s = s"
proof (induction old new s rule: replace_scan.induct)
  case (1 old new)
  then show ?case by simp
next
  case (2 old new c cs)
  then show ?case by (auto simp: sublist_Cons_right)
qed

lemma get_uno_context_unfold:
  "0 < depth \<Longrightarrow> get_uno_context env depth w =
     (let w1 = w\<lparr>resolves := Suc (resolves w)\<rparr> in
      case uno_resolve env (resolves w) of
        Inr ctx \<Rightarrow> (Inr ctx, w1)
      | Inl e \<Rightarrow>
          if is_NoConnectException e
          then get_uno_context env (depth - 1) (time_sleep 5 (start_libreoffice_service env w1))
          else (Inl e, w1))"
  by (cases depth) (auto simp: Let_def split: sum.splits)

section \<open>The bridge client\<close>

text \<open>
  Claim C1, as the code has it. \<^verbatim>\<open>get_uno_context\<close> answers every refused connection
  with one restart of the office-suite service and one more connection attempt, as often
  as connections are refused: when the next \<open>k\<close> attempts are refused and the one after
  them is not, and the interpreter allows more than \<open>k\<close> nested activations, the call
  returns the outcome of that attempt (a context, or an exception other than
  \<^verbatim>\<open>NoConnectException\<close>, which it passes on), after exactly \<open>k\<close> restarts and \<open>k + 1\<close>
  attempts. Nothing bounds \<open>k\<close> by one.
\<close>

theorem get_uno_context_retries:
  assumes "\<forall>i<k. refused (uno_resolve env (resolves w + i))"
    and "\<not> refused (uno_resolve env (resolves w + k))"
    and "k < depth"
  shows "fst (get_uno_context env depth w) = uno_resolve env (resolves w + k)
       \<and> restarts (snd (get_uno_context env depth w)) = restarts w + k
       \<and> resolves (snd (get_uno_context env depth w)) = resolves w + k + 1"
  using assms
proof (induction k arbitrary: w depth)
  case 0
  then obtain d where d: "depth = Suc d" by (cases depth) auto
  from 0 show ?case unfolding d
    by (auto simp: refused_def Let_def split: sum.splits)
next
  case (Suc k)
  then obtain d where d: "depth = Suc d" and kd: "k < d" by (cases depth) auto
  let ?w' = "time_sleep 5 (start_libreoffice_service env (w\<lparr>resolves := Suc (resolves w)\<rparr>))"
  from Suc.prems(1) have r0: "refused (uno_resolve env (resolves w))"
    by (metis add.right_neutral zero_less_Suc)
  have rs: "resolves ?w' = Suc (resolves w)" by simp
  have a: "\<forall>i<k. refused (uno_resolve env (resolves ?w' + i))"
    using Suc.prems(1) by (simp add: rs) (metis Suc_less_eq add_Suc_right)
  have b: "\<not> refused (uno_resolve env (resolves ?w' + k))"
    using Suc.prems(2) by (simp add: rs)
  have step: "get_uno_context env depth w = get_uno_context env d ?w'"
    using r0 unfolding d by (auto simp: refused_def Let_def split: sum.splits)
  from Suc.IH[OF a b kd] show ?case
    unfolding step by (simp add: rs)
qed

text \<open>
  Two refused connections, then a context: two restarts and three attempts.
\<close>

theorem get_uno_context_retries_witness:
  "fst (get_uno_context env_refused_twice 1000 world0) = Inr 0
   \<and> restarts (snd (get_uno_context env_refused_twice 1000 world0)) = 2
   \<and> resolves (snd (get_uno_context env_refused_twice 1000 world0)) = 3"
  using get_uno_context_retries [of 2 env_refused_twice world0 1000]
  by (simp add: env_refused_twice_def env0_def world0_def refused_def)

text \<open>
  The same run, computed step by step, against the bound of a single reconnect: the first
  connection is refused, and the call restarts the service twice and connects three times.
\<close>

theorem get_uno_context_single_retry_counterexample:
  "refused (uno_resolve env_refused_twice 0)
   \<and> restarts (snd (get_uno_context env_refused_twice (recursion_limit env_refused_twice) world0))
       = restarts world0 + 2
   \<and> resolves (snd (get_uno_context env_refused_twice (recursion_limit env_refused_twice) world0))
       = resolves world0 + 3"
  by (simp add: env_refused_twice_def env0_def world0_def refused_def get_uno_context_unfold
      start_libreoffice_service_def time_sleep_def Let_def)

text \<open>
  When every activation the interpreter allows is refused, the call ends in
  \<^verbatim>\<open>RecursionError\<close>, after as many restarts as activations.
\<close>

lemma get_uno_context_recursion_limit:
  assumes "\<forall>i<depth. refused (uno_resolve env (resolves w + i))"
  shows "fst (get_uno_context env depth w)
           = Inl (Exn RecursionError ''maximum recursion depth exceeded'')
       \<and> restarts (snd (get_uno_context env depth w)) = restarts w + depth"
  using assms
proof (induction depth arbitrary: w)
  case 0
  show ?case by simp
next
  case (Suc depth)
  let ?w' = "time_sleep 5 (start_libreoffice_service env (w\<lparr>resolves := Suc (resolves w)\<rparr>))"
  from Suc.prems have r0: "refused (uno_resolve env (resolves w))"
    by (metis add.right_neutral zero_less_Suc)
  have rs: "resolves ?w' = Suc (resolves w)" by simp
  have a: "\<forall>i<depth. refused (uno_resolve env (resolves ?w' + i))"
    using Suc.prems by (simp add: rs) (metis Suc_less_eq add_Suc_right)
  have step: "get_uno_context env (Suc depth) w = get_uno_context env depth ?w'"
    using r0 by (auto simp: refused_def Let_def split: sum.splits)
  from Suc.IH [OF a] show ?case
    unfolding step by simp
qed

section \<open>The health endpoint\<close>

text \<open>
  Claim C8. \<^verbatim>\<open>GET /health\<close> answers 200 with \<^verbatim>\<open>'status': 'healthy'\<close> in every world,
  and touches nothing: the handler reads the clock only, never the converter, so the
  answer is the same whether or not the office suite or the bridge can be reached.
\<close>

theorem health_check_healthy:
  "\<exists>items. health_check w = ((Json (JObj items), 200), w)
     \<and> map_of items ''status'' = Some (JStr ''healthy'')"
  by (simp add: health_check_def jsonify_def)

section \<open>The converter\<close>

text \<open>
  Claim C10, as the code has it. \<^verbatim>\<open>docx_to_html\<close> and \<^verbatim>\<open>html_to_docx\<close> return a
  boolean in every world and never an exception. Each returns \<^verbatim>\<open>True\<close> exactly when
  every step of its \<^verbatim>\<open>try\<close> before the post-processing completes: the bridge context
  is obtained, the desktop is created, both paths are absolute (so that \<^verbatim>\<open>as_uri\<close>
  does not raise), the load, the property assignments (DOCX to HTML only), the export and
  the close complete. It returns \<^verbatim>\<open>False\<close> when any of them raises, the close after a
  completed export included. The file-system faults, which are all that can fail inside
  \<^verbatim>\<open>enhance_html_output\<close>, do not change the result of \<^verbatim>\<open>docx_to_html\<close>.
\<close>

theorem conversion_result_iff:
  "(fst (docx_to_html env docx_path html_path w) \<longleftrightarrow>
      \<not> isl (fst (get_uno_context env (recursion_limit env) w))
      \<and> uno_desktop env (conversions w) = None
      \<and> is_absolute env docx_path
      \<and> uno_load env (conversions w) = None
      \<and> is_absolute env html_path
      \<and> uno_props env (conversions w) = None
      \<and> \<not> isl (uno_store env (conversions w))
      \<and> uno_close env (conversions w) = None)
   \<and> (fst (html_to_docx env html_path docx_path template_path w) \<longleftrightarrow>
      \<not> isl (fst (get_uno_context env (recursion_limit env) w))
      \<and> uno_desktop env (conversions w) = None
      \<and> is_absolute env html_path
      \<and> uno_load env (conversions w) = None
      \<and> is_absolute env docx_path
      \<and> \<not> isl (uno_store env (conversions w))
      \<and> uno_close env (conversions w) = None)
   \<and> fst (docx_to_html (env\<lparr>io_fault := faults\<rparr>) docx_path html_path w)
       = fst (docx_to_html env docx_path html_path w)"
proof -
  have g: "fst (get_uno_context (env\<lparr>io_fault := faults\<rparr>) (recursion_limit env) w)
      = fst (get_uno_context env (recursion_limit env) w)"
    by (rule get_uno_context_same_resolver) simp_all
  have n: "\<And>r :: exn + 'a. (\<not> isl r) = (\<exists>x. r = Inr x)"
    by (case_tac r) auto
  show ?thesis
    unfolding docx_to_html_iff html_to_docx_iff n
    by (simp add: g)
qed

text \<open>
  With an office suite that answers every call both conversions return \<^verbatim>\<open>True\<close>, also
  when every file-system call of the post-processing fails.
\<close>

theorem conversion_result_iff_witness:
  "fst (docx_to_html env0 ''/tmp/cv.docx'' ''/tmp/cv.html'' world0)
   \<and> fst (html_to_docx env0 ''/tmp/cv.html'' ''/tmp/cv.docx'' None world0)
   \<and> fst (docx_to_html (env0\<lparr>io_fault := (\<lambda>k. Some (Exn OtherException ''disk full''))\<rparr>)
        ''/tmp/cv.docx'' ''/tmp/cv.html'' world0)"
  using conversion_result_iff [where env = env0 and docx_path = "''/tmp/cv.docx''"
      and html_path = "''/tmp/cv.html''" and w = world0 and template_path = None
      and faults = "\<lambda>k. Some (Exn OtherException ''disk full'')"]
  by (simp add: env0_def world0_def get_uno_context_unfold)

text \<open>
  The load and the export complete, the close raises: \<^verbatim>\<open>docx_to_html\<close> returns
  \<^verbatim>\<open>False\<close>.
\<close>

theorem docx_to_html_close_counterexample:
  "uno_load env_close_fails (conversions world0) = None
   \<and> \<not> isl (uno_store env_close_fails (conversions world0))
   \<and> \<not> fst (docx_to_html env_close_fails ''/tmp/cv.docx'' ''/tmp/cv.html'' world0)"
  by (simp add: docx_to_html_iff env_close_fails_def env0_def world0_def)

section \<open>The HTML post-processor\<close>

lemma str_replace_absent: "\<not> sublist old s \<Longrightarrow> str_replace s old new = s"
  by (auto simp: str_replace_def replace_scan_absent)

lemma str_replace_sublist:
  "old \<noteq> [] \<Longrightarrow> sublist old s \<Longrightarrow> sublist new (str_replace s old new)"
  by (simp add: str_replace_def replace_scan_sublist)

text \<open>
  One occurrence, replaced in place: when \<open>old\<close> does not begin before the end of
  \<open>pre\<close>, the scan copies \<open>pre\<close>, puts \<open>new\<close> for \<open>old\<close> and goes on behind it.
\<close>

lemma replace_scan_first:
  assumes "old \<noteq> []" and "\<not> sublist old (pre @ butlast old)"
  shows "replace_scan old new (pre @ old @ post) = pre @ new @ replace_scan old new post"
  using assms(2)
proof (induction pre)
  case Nil
  from assms(1) obtain c cs where o: "old = c # cs" by (cases old) auto
  then show ?case by simp
next
  case (Cons c pre)
  have "\<not> prefix old (c # pre @ old @ post)"
  proof
    assume p: "prefix old (c # pre @ old @ post)"
    have "prefix (butlast old) old" by (simp add: prefixeq_butlast)
    then have "prefix (butlast old) (old @ post)" by simp
    then have q: "prefix ((c # pre) @ butlast old) ((c # pre) @ old @ post)"
      by (simp only: same_prefix_prefix)
    have "length old \<le> length ((c # pre) @ butlast old)" by simp
    with p q have "prefix old ((c # pre) @ butlast old)"
      by (metis append_Cons prefix_length_prefix)
    with Cons.prems show False by auto
  qed
  moreover from Cons.prems have "\<not> sublist old (pre @ butlast old)"
    by (simp add: sublist_Cons_right)
  ultimately show ?case using Cons.IH by simp
qed

lemma str_replace_first:
  assumes "old \<noteq> []" and "\<not> sublist old (pre @ butlast old)" and "\<not> sublist old post"
  shows "str_replace (pre @ old @ post) old new = pre @ new @ post"
  using assms by (simp add: str_replace_def replace_scan_first replace_scan_absent)

text \<open>Text mode: what is written without CR is read back as it was.\<close>

lemma universal_newlines_Cons:
  "c \<noteq> CR \<Longrightarrow> universal_newlines (c # cs) = c # universal_newlines cs"
  by (cases cs) simp_all

lemma universal_newlines_no_CR: "CR \<notin> set (universal_newlines s)"
  by (induction s rule: universal_newlines.induct) auto

lemma universal_newlines_id: "CR \<notin> set s \<Longrightarrow> universal_newlines s = s"
proof (induction s)
  case Nil
  show ?case by simp
next
  case (Cons c s)
  then have "c \<noteq> CR" and "universal_newlines s = s" by auto
  then show ?case by (simp add: universal_newlines_Cons)
qed

lemma read_back: "CR \<notin> set s \<Longrightarrow> universal_newlines (to_linesep env s) = s"
proof (induction s)
  case Nil
  show ?case by (simp add: to_linesep_def)
next
  case (Cons c s)
  then have ih: "universal_newlines (to_linesep env s) = s" by simp
  have t: "to_linesep env (c # s) = (if c = LF then linesep env else [c]) @ to_linesep env s"
    by (simp add: to_linesep_def)
  from Cons.prems have "c \<noteq> CR" by auto
  then show ?case
    unfolding t using ih by (simp add: linesep_def universal_newlines_Cons)
qed

lemma set_replace_scan: "set (replace_scan old new s) \<subseteq> set s \<union> set new"
proof (induction old new s rule: replace_scan.induct)
  case (1 old new)
  show ?case by simp
next
  case (2 old new c cs)
  have "set (drop (length old - 1) cs) \<subseteq> set cs" by (rule set_drop_subset)
  with 2 show ?case by auto
qed

lemma str_replace_no_CR:
  "old \<noteq> [] \<Longrightarrow> CR \<notin> set s \<Longrightarrow> CR \<notin> set new \<Longrightarrow> CR \<notin> set (str_replace s old new)"
  using set_replace_scan [of old new s] by (auto simp: str_replace_def)

lemma head_replacement_no_CR: "CR \<notin> set head_replacement"
  by (simp add: head_replacement_def head_prefix_def style_block_def)

lemma enhanced_text_no_CR:
  "CR \<notin> set (str_replace (universal_newlines bytes) ''<head>'' head_replacement)"
  by (rule str_replace_no_CR) (simp_all add: universal_newlines_no_CR head_replacement_no_CR)

lemma enhance_226_effect:
  assumes "io_fault env (io_ops w) = None" "io_fault env (Suc (io_ops w)) = None"
    and "fs w html_path = Some bytes"
  shows "snd (enhance_html_output_226 env html_path w)
    = w\<lparr>io_ops := Suc (Suc (io_ops w)),
         fs := (fs w)(html_path \<mapsto> to_linesep env
                  (str_replace (universal_newlines bytes) ''<head>'' head_replacement))\<rparr>"
  using assms
  by (simp add: enhance_html_output_226_def and_then_def open_read_def open_write_def
      write_file_def Let_def)

lemma head_replacement_holds:
  "prefix (''<head>'' @ nl) head_replacement"
  "sublist (''<meta charset='' @ dq @ ''UTF-8'' @ dq @ ''>'') head_replacement"
  "sublist (''<meta name='' @ dq @ ''viewport'' @ dq) head_replacement"
  "sublist (''body { font-family: '' @ sq @ ''Segoe UI'' @ sq) head_replacement"
  by (simp_all add: head_replacement_def head_prefix_def style_block_def sublist_code(3))

lemma head_replacement_ends: "suffix ''</style>'' head_replacement"
  unfolding head_replacement_def style_block_def
  by (intro suffix_appendI) (simp add: suffix_to_prefix)

lemma head_replacement_no_P: "CHR ''P'' \<notin> set head_replacement"
  by (simp add: head_replacement_def head_prefix_def style_block_def)

lemma head_replacement_not_first:
  "\<not> sublist ''Preserve exact dimensions'' head_replacement"
proof
  assume "sublist ''Preserve exact dimensions'' head_replacement"
  then have "set ''Preserve exact dimensions'' \<subseteq> set head_replacement"
    by (rule set_mono_sublist)
  with head_replacement_no_P show False by simp
qed

lemmas head_replacement_parts =
  head_replacement_holds head_replacement_ends head_replacement_not_first

text \<open>
  Claim C9. The class body binds \<^verbatim>\<open>enhance_html_output\<close> twice, and the namespace holds
  the definition of line 226: a call of \<^verbatim>\<open>self.enhance_html_output\<close> runs the second
  definition. When the file is there and neither the read nor the write fails, the call
  reads the file as text, replaces every \<^verbatim>\<open><head>\<close> by the head text and writes the
  result back as text, and does nothing else. The head text begins with the head tag,
  holds the two meta tags and the Segoe UI style block up to its closing tag, and holds
  nothing of the first definition's block. A text with one \<^verbatim>\<open><head>\<close> comes out with the
  head text in that place and is otherwise the same, whatever \<^verbatim>\<open></head>\<close> it has; a
  text without \<^verbatim>\<open><head>\<close> comes out the same. So the replacement of the first
  definition is not made.
\<close>

theorem enhance_html_output_is_second:
  "class_namespace LibreOfficeConverter_body ''enhance_html_output'' = Some 226
   \<and> enhance_html_output env html_path w
       = (Inr (fst (enhance_html_output_226 env html_path w)),
          snd (enhance_html_output_226 env html_path w))
   \<and> (io_fault env (io_ops w) = None \<and> io_fault env (Suc (io_ops w)) = None
        \<and> fs w html_path = Some bytes \<longrightarrow>
      fs (snd (enhance_html_output env html_path w))
        = (fs w)(html_path \<mapsto> to_linesep env
             (str_replace (universal_newlines bytes) ''<head>'' head_replacement)))
   \<and> (\<not> sublist ''<head>'' (pre @ ''<head'') \<and> \<not> sublist ''<head>'' post \<longrightarrow>
      str_replace (pre @ ''<head>'' @ post) ''<head>'' head_replacement
        = pre @ head_replacement @ post)
   \<and> (\<not> sublist ''<head>'' text \<longrightarrow> str_replace text ''<head>'' head_replacement = text)
   \<and> prefix (''<head>'' @ nl) head_replacement
   \<and> sublist (''<meta charset='' @ dq @ ''UTF-8'' @ dq @ ''>'') head_replacement
   \<and> sublist (''<meta name='' @ dq @ ''viewport'' @ dq) head_replacement
   \<and> sublist (''body { font-family: '' @ sq @ ''Segoe UI'' @ sq) head_replacement
   \<and> suffix ''</style>'' head_replacement
   \<and> \<not> sublist ''Preserve exact dimensions'' head_replacement"
proof -
  have one: "\<not> sublist ''<head>'' (pre @ ''<head'') \<and> \<not> sublist ''<head>'' post \<longrightarrow>
      str_replace (pre @ ''<head>'' @ post) ''<head>'' head_replacement
        = pre @ head_replacement @ post"
    using str_replace_first [of "''<head>''" pre post head_replacement] by simp
  show ?thesis
    using one head_replacement_parts
    by (simp add: bound_method enhance_html_output_bound enhance_226_effect str_replace_absent)
qed

text \<open>
  A page with a head and CR LF line ends: the file written back has the head text in
  the place of the head tag, and the line ends of the platform.
\<close>

theorem enhance_html_output_is_second_witness:
  "fs (snd (enhance_html_output env0 ''/tmp/cv.html'' world_page))
     = (fs world_page)(''/tmp/cv.html'' \<mapsto>
          to_linesep env0 (''<html>'' @ nl @ head_replacement @ ''</head>'' @ nl @ ''</html>''))"
proof -
  have u: "universal_newlines page_bytes = (''<html>'' @ nl) @ ''<head>'' @ (''</head>'' @ nl @ ''</html>'')"
    by (simp add: page_bytes_def)
  have a: "\<not> sublist ''<head>'' ((''<html>'' @ nl) @ ''<head'')"
    and b: "\<not> sublist ''<head>'' (''</head>'' @ nl @ ''</html>'')"
    by (simp_all add: sublist_code(3))
  note t = enhance_html_output_is_second [where env = env0 and w = world_page
      and html_path = "''/tmp/cv.html''" and bytes = page_bytes
      and pre = "''<html>'' @ nl" and post = "''</head>'' @ nl @ ''</html>''"]
  have "fs (snd (enhance_html_output env0 ''/tmp/cv.html'' world_page))
        = (fs world_page)(''/tmp/cv.html'' \<mapsto> to_linesep env0
             (str_replace (universal_newlines page_bytes) ''<head>'' head_replacement))"
    by (rule t [THEN conjunct2, THEN conjunct2, THEN conjunct1, THEN mp])
       (simp add: env0_def world_page_def world0_def)
  moreover
  have "str_replace ((''<html>'' @ nl) @ ''<head>'' @ (''</head>'' @ nl @ ''</html>''))
          ''<head>'' head_replacement
        = (''<html>'' @ nl) @ head_replacement @ (''</head>'' @ nl @ ''</html>'')"
    by (rule t [THEN conjunct2, THEN conjunct2, THEN conjunct2, THEN conjunct1, THEN mp,
          OF conjI [OF a b]])
  ultimately show ?thesis
    unfolding u by simp
qed

section \<open>The HTTP layer\<close>

lemmas seq_defs = and_then_def returns_def raises_def no_raise_def of_result_def

lemmas file_defs =
  NamedTemporaryFile_def file_save_def open_write_def write_file_def open_read_def
  os_unlink_def os_path_exists_def

lemmas io_defs = file_defs to_linesep_def linesep_def

lemmas convert_defs =
  docx_to_html_def docx_to_html_try_def html_to_docx_def html_to_docx_try_def uno_call_def
  as_uri_def storeToURL_def apply_template_styles_def enhance_html_output_bound
  enhance_html_output_226_def str_replace_def

lemmas example_defs =
  world0_def env0_def env_refused_twice_def env_load_fails_def env_close_fails_def
  env_no_head_def env_second_load_fails_def cv_docx_def letter_docx_def req_docx_def
  req_batch_def req_batch2_def req_html_def req_empty_def req_unnamed_def

lemma io_frame:
  "NamedTemporaryFile env sfx w = (rp, w') \<Longrightarrow>
     resolves w' = resolves w \<and> conversions w' = conversions w"
  "open_write env p c w = (ru, w') \<Longrightarrow>
     resolves w' = resolves w \<and> conversions w' = conversions w"
  "open_read env p w = (rs, w') \<Longrightarrow>
     resolves w' = resolves w \<and> conversions w' = conversions w"
  "os_unlink env p w = (ru, w') \<Longrightarrow>
     resolves w' = resolves w \<and> conversions w' = conversions w"
  "file_save env file p w = (ru, w') \<Longrightarrow>
     resolves w' = resolves w \<and> conversions w' = conversions w"
  by (auto simp: NamedTemporaryFile_def file_save_def open_write_def write_file_def
        open_read_def os_unlink_def Let_def split: option.splits)

lemma io_count:
  "NamedTemporaryFile env sfx w = (Inr p, w') \<Longrightarrow>
     p = temp_name env (io_ops w) sfx \<and> io_ops w' = Suc (io_ops w)"
  "file_save env file p w = (ru, w') \<Longrightarrow> io_ops w' = Suc (io_ops w)"
  by (auto simp: NamedTemporaryFile_def file_save_def write_file_def Let_def
        split: option.splits)

lemma not_isl_iff: "(\<not> isl r) = (\<exists>x. r = Inr x)"
  by (cases r) auto

lemma docx_to_html_fails:
  assumes "\<not> (remote_calls_complete env w \<and> uno_props env (conversions w) = None)"
    and "resolves w1 = resolves w" "conversions w1 = conversions w"
    and "docx_to_html env docx_path html_path w1 = (b, w2)"
  shows "b = False"
proof -
  have "fst (get_uno_context env (recursion_limit env) w1)
      = fst (get_uno_context env (recursion_limit env) w)"
    using assms(2) by (intro get_uno_context_same_resolver) simp_all
  moreover have "b = fst (docx_to_html env docx_path html_path w1)"
    using assms(4) by simp
  ultimately show ?thesis
    using assms(1,3) unfolding docx_to_html_iff remote_calls_complete_def not_isl_iff
    by auto
qed

lemma html_to_docx_fails:
  assumes "\<not> remote_calls_complete env w"
    and "resolves w1 = resolves w" "conversions w1 = conversions w"
    and "html_to_docx env html_path docx_path template_path w1 = (b, w2)"
  shows "b = False"
proof -
  have "fst (get_uno_context env (recursion_limit env) w1)
      = fst (get_uno_context env (recursion_limit env) w)"
    using assms(2) by (intro get_uno_context_same_resolver) simp_all
  moreover have "b = fst (html_to_docx env html_path docx_path template_path w1)"
    using assms(4) by simp
  ultimately show ?thesis
    using assms(1,3) unfolding html_to_docx_iff remote_calls_complete_def not_isl_iff
    by auto
qed

lemma docx_endpoint_conversion_fails:
  assumes "map_of (files req) ''file'' = Some file" "filename file \<noteq> []"
    and "\<not> (remote_calls_complete env w \<and> uno_props env (conversions w) = None)"
  shows "\<exists>msg. fst (convert_docx_to_html env req w) = (jsonify [(''error'', JStr msg)], 500)"
  using assms(1,2)
  by (auto simp: convert_docx_to_html_def convert_docx_to_html_try_def except_500_def
        seq_defs Let_def
      split: sum.splits prod.splits if_splits
      dest!: io_frame docx_to_html_fails [OF assms(3), rotated 2])

lemma html_endpoint_conversion_fails:
  assumes "get_json req = Inr (JObj items)" "map_of items ''html'' = Some v"
    and "\<not> remote_calls_complete env w"
  shows "\<exists>msg. fst (convert_html_to_docx env req w) = (jsonify [(''error'', JStr msg)], 500)"
proof -
  from assms(2) have "items \<noteq> []" by auto
  then show ?thesis
    using assms(1,2)
    by (auto simp: convert_html_to_docx_def convert_html_to_docx_try_def except_500_def
          seq_defs Let_def
        split: sum.splits prod.splits if_splits option.splits json.splits
        dest!: io_frame html_to_docx_fails [OF assms(3), rotated 2])
qed

text \<open>
  Missing input. A form without a \<^verbatim>\<open>file\<close> part, a \<^verbatim>\<open>file\<close> part with an empty
  filename, a JSON body that is an object without the key \<^verbatim>\<open>html\<close>, and an empty
  \<^verbatim>\<open>files\<close> list are answered 400 with a JSON error, and the world is left as it was:
  no temporary file, no connection attempt, no conversion.
\<close>

lemma missing_input_400:
  "(''file'' \<notin> fst ` set (files req) \<longrightarrow>
      convert_docx_to_html env req w
        = ((jsonify [(''error'', JStr ''No file provided'')], 400), w))
   \<and> (map_of (files req) ''file'' = Some part \<and> filename part = [] \<longrightarrow>
      convert_docx_to_html env req w
        = ((jsonify [(''error'', JStr ''No file selected'')], 400), w))
   \<and> (get_json req = Inr (JObj items) \<and> ''html'' \<notin> fst ` set items \<longrightarrow>
      convert_html_to_docx env req w
        = ((jsonify [(''error'', JStr ''No HTML content provided'')], 400), w))
   \<and> (getlist ''files'' (files req) = [] \<longrightarrow>
      batch_convert env req w
        = ((jsonify [(''error'', JStr ''No files provided'')], 400), w))"
proof (intro conjI impI)
  assume "''file'' \<notin> fst ` set (files req)"
  then have "map_of (files req) ''file'' = None" by (simp add: map_of_eq_None_iff)
  then show "convert_docx_to_html env req w
      = ((jsonify [(''error'', JStr ''No file provided'')], 400), w)"
    by (simp add: convert_docx_to_html_def convert_docx_to_html_try_def except_500_def seq_defs)
next
  assume "map_of (files req) ''file'' = Some part \<and> filename part = []"
  then show "convert_docx_to_html env req w
      = ((jsonify [(''error'', JStr ''No file selected'')], 400), w)"
    by (simp add: convert_docx_to_html_def convert_docx_to_html_try_def except_500_def seq_defs)
next
  assume a: "get_json req = Inr (JObj items) \<and> ''html'' \<notin> fst ` set items"
  then have "map_of items ''html'' = None" by (simp add: map_of_eq_None_iff)
  with a show "convert_html_to_docx env req w
      = ((jsonify [(''error'', JStr ''No HTML content provided'')], 400), w)"
    by (simp add: convert_html_to_docx_def convert_html_to_docx_try_def except_500_def seq_defs)
next
  assume "getlist ''files'' (files req) = []"
  then show "batch_convert env req w
      = ((jsonify [(''error'', JStr ''No files provided'')], 400), w)"
    by (simp add: batch_convert_def batch_convert_try_def except_500_def seq_defs)
qed

text \<open>
  A request with neither form parts nor an \<^verbatim>\<open>html\<close> key, at the three endpoints, and a
  request whose file has no name.
\<close>

lemma missing_input_400_examples:
  "convert_docx_to_html env0 req_empty world0
     = ((jsonify [(''error'', JStr ''No file provided'')], 400), world0)
   \<and> convert_html_to_docx env0 req_empty world0
     = ((jsonify [(''error'', JStr ''No HTML content provided'')], 400), world0)
   \<and> batch_convert env0 req_empty world0
     = ((jsonify [(''error'', JStr ''No files provided'')], 400), world0)
   \<and> convert_docx_to_html env0 req_unnamed world0
     = ((jsonify [(''error'', JStr ''No file selected'')], 400), world0)"
  using missing_input_400 [where req = req_empty and env = env0 and w = world0
      and items = "[(''template'', JStr ''modern'')]"]
    missing_input_400 [where req = req_unnamed and env = env0 and w = world0
      and part = "\<lparr>filename = [], data = ''PK''\<rparr>"]
  by (simp add: req_empty_def req_unnamed_def getlist_def)

text \<open>
  Claim C5, where the code departs from it. A JSON body that is not an object lacks the
  key \<^verbatim>\<open>html\<close> too. For the body \<^verbatim>\<open>5\<close>, and for the body \<^verbatim>\<open>true\<close>, the test
  \<^verbatim>\<open>not data\<close> of line 329 is false and the membership test \<^verbatim>\<open>'html' not in data\<close>
  raises \<^verbatim>\<open>TypeError\<close>: the request is answered by the \<^verbatim>\<open>except\<close> clause, 500 with the
  text of the exception, not 400. No conversion is attempted: the world is left as it
  was.
\<close>

theorem non_object_body_is_500:
  "convert_html_to_docx env (req\<lparr>get_json := Inr (JInt 5)\<rparr>) w
     = ((jsonify [(''error'',
           JStr (''argument of type '' @ sq @ ''int'' @ sq @ '' is not iterable''))], 500), w)
   \<and> convert_html_to_docx env (req\<lparr>get_json := Inr (JBool True)\<rparr>) w
     = ((jsonify [(''error'',
           JStr (''argument of type '' @ sq @ ''bool'' @ sq @ '' is not iterable''))], 500), w)"
  by (simp add: convert_html_to_docx_def convert_html_to_docx_try_def except_500_def seq_defs)

text \<open>
  Claim C2, where the code departs from it. A DOCX whose load fails is answered 500 by
  the branch of line 318, which unlinks nothing: the two temporary files the handler
  created are still there after the response. The HTML endpoint never unlinks: after a
  successful conversion both of its temporary files are still there.
\<close>

theorem temporary_files_left_behind:
  "fst (convert_docx_to_html env_load_fails req_docx world0)
     = (jsonify [(''error'', JStr ''Conversion failed'')], 500)
   \<and> fs world0 ''/tmp/tmp.docx'' = None
   \<and> fs world0 ''/tmp/tmpxx.html'' = None
   \<and> fs (snd (convert_docx_to_html env_load_fails req_docx world0)) ''/tmp/tmp.docx'' = Some ''PK''
   \<and> fs (snd (convert_docx_to_html env_load_fails req_docx world0)) ''/tmp/tmpxx.html'' = Some []
   \<and> snd (fst (convert_html_to_docx env0 req_html world0)) = 200
   \<and> fs (snd (convert_html_to_docx env0 req_html world0)) ''/tmp/tmp.html'' = Some ''<p>cv</p>''
   \<and> fs (snd (convert_html_to_docx env0 req_html world0)) ''/tmp/tmpxx.docx'' \<noteq> None"
  by (simp add: convert_docx_to_html_def convert_docx_to_html_try_def convert_html_to_docx_def
      convert_html_to_docx_try_def template_path_of_def except_500_def
      seq_defs io_defs convert_defs example_defs get_uno_context_unfold Let_def)

section \<open>The single-file DOCX endpoint\<close>

lemma open_read_Inr:
  "open_read env p w = (Inr c, w') \<Longrightarrow> \<exists>bytes. fs w p = Some bytes \<and> c = universal_newlines bytes"
  by (auto simp: open_read_def Let_def split: option.splits)

lemma docx_to_html_exports:
  assumes "\<forall>k. io_fault env k = None"
    and "uno_store env (conversions w) = Inr content"
    and "conversions w1 = conversions w"
    and "docx_to_html env docx_path html_path w1 = (True, w2)"
  shows "fs w2 html_path
    = Some (to_linesep env (str_replace (universal_newlines content) ''<head>'' head_replacement))"
  using assms
  by (auto simp: docx_to_html_def docx_to_html_try_def seq_defs uno_call_def as_uri_def
        storeToURL_def enhance_html_output_bound enhance_226_effect Let_def
      split: sum.splits prod.splits if_splits option.splits)

lemma style_block_injected:
  assumes "sublist ''<head>'' content"
  shows "sublist style_block (str_replace content ''<head>'' head_replacement)"
proof -
  have "sublist head_replacement (str_replace content ''<head>'' head_replacement)"
    using assms by (intro str_replace_sublist) simp_all
  moreover have "sublist style_block head_replacement"
    by (simp add: head_replacement_def)
  ultimately show ?thesis
    by (rule sublist_order.order.trans [rotated])
qed

lemma docx_endpoint_success:
  assumes "fst (convert_docx_to_html env req w) = (Json (JObj items), 200)"
  shows "\<exists>part docx_path html_path wa wb w1 w2 w3 t html u.
      map_of (files req) ''file'' = Some part
      \<and> NamedTemporaryFile env ''.docx'' w = (Inr docx_path, wa)
      \<and> file_save env part docx_path wa = (Inr u, wb)
      \<and> NamedTemporaryFile env ''.html'' wb = (Inr html_path, w1)
      \<and> docx_to_html env docx_path html_path w1 = (True, w2)
      \<and> open_read env html_path w2 = (Inr html, w3)
      \<and> items = [(''success'', JBool True), (''html'', JStr html),
                  (''hash'', JStr (sha256_hexdigest env html)), (''timestamp'', JFloat t)]"
  using assms
  by (auto simp: convert_docx_to_html_def convert_docx_to_html_try_def except_500_def
        seq_defs Let_def jsonify_def
      split: sum.splits prod.splits if_splits option.splits)

text \<open>
  Claim C3, as the code has it. When no file-system call of the request fails, the
  \<^verbatim>\<open>html\<close> of a successful answer of \<^verbatim>\<open>POST /convert/docx-to-html\<close> is the text of
  the page the office suite exported, as a text-mode read gives it (every CR LF and CR
  an LF), with every \<^verbatim>\<open><head>\<close> replaced by the head text. It contains the injected
  style block when that text contains \<^verbatim>\<open><head>\<close>; a text without it comes back as it
  was read.
\<close>

theorem docx_response_has_style_block:
  assumes "\<forall>k. io_fault env k = None"
    and "uno_store env (conversions w) = Inr content"
    and "fst (convert_docx_to_html env req w) = (Json (JObj items), 200)"
  shows "map_of items ''html''
       = Some (JStr (str_replace (universal_newlines content) ''<head>'' head_replacement))
     \<and> (sublist ''<head>'' (universal_newlines content) \<longrightarrow>
          sublist style_block
            (str_replace (universal_newlines content) ''<head>'' head_replacement))
     \<and> (\<not> sublist ''<head>'' (universal_newlines content) \<longrightarrow>
          str_replace (universal_newlines content) ''<head>'' head_replacement
            = universal_newlines content)"
proof -
  from docx_endpoint_success [OF assms(3)]
  obtain part docx_path html_path wa wb w1 w2 w3 t html u where
    s1: "NamedTemporaryFile env ''.docx'' w = (Inr docx_path, wa)"
    and s2: "file_save env part docx_path wa = (Inr u, wb)"
    and s3: "NamedTemporaryFile env ''.html'' wb = (Inr html_path, w1)"
    and d: "docx_to_html env docx_path html_path w1 = (True, w2)"
    and r: "open_read env html_path w2 = (Inr html, w3)"
    and i: "items = [(''success'', JBool True), (''html'', JStr html),
                  (''hash'', JStr (sha256_hexdigest env html)), (''timestamp'', JFloat t)]"
    by blast
  have c: "conversions w1 = conversions w"
    using io_frame(1) [OF s1] io_frame(5) [OF s2] io_frame(1) [OF s3] by simp
  from docx_to_html_exports [OF assms(1,2) c d] open_read_Inr [OF r]
  have "html = universal_newlines (to_linesep env
          (str_replace (universal_newlines content) ''<head>'' head_replacement))"
    by auto
  then have "html = str_replace (universal_newlines content) ''<head>'' head_replacement"
    by (simp add: read_back enhanced_text_no_CR)
  with i show ?thesis
    by (simp add: style_block_injected str_replace_absent)
qed

text \<open>The exported page of \<open>env0\<close> has a head, and the answer carries the style block.\<close>

theorem docx_response_has_style_block_witness:
  "fst (convert_docx_to_html env0 req_docx world0)
     = (Json (JObj [(''success'', JBool True),
          (''html'', JStr (str_replace
             ''<html><head><title>cv</title></head><body><p>cv</p></body></html>''
             ''<head>'' head_replacement)),
          (''hash'', JStr (sha256_hexdigest env0 (str_replace
             ''<html><head><title>cv</title></head><body><p>cv</p></body></html>''
             ''<head>'' head_replacement))),
          (''timestamp'', JFloat 0)]), 200)
   \<and> sublist style_block
        (str_replace ''<html><head><title>cv</title></head><body><p>cv</p></body></html>''
           ''<head>'' head_replacement)"
proof -
  let ?page = "''<html><head><title>cv</title></head><body><p>cv</p></body></html>''"
  let ?html = "str_replace ?page ''<head>'' head_replacement"
  have f: "\<forall>k. io_fault env0 k = None" by (simp add: env0_def)
  have s: "uno_store env0 (conversions world0) = Inr ?page" by (simp add: env0_def)
  have n: "universal_newlines ?page = ?page" by (simp add: universal_newlines_id)
  have h: "sublist ''<head>'' ?page" by (simp add: sublist_code(3))
  have r: "fst (convert_docx_to_html env0 req_docx world0)
      = (Json (JObj [(''success'', JBool True), (''html'', JStr ?html),
           (''hash'', JStr (sha256_hexdigest env0 ?html)), (''timestamp'', JFloat 0)]), 200)"
    by (simp add: convert_docx_to_html_def convert_docx_to_html_try_def except_500_def
        seq_defs file_defs docx_to_html_def docx_to_html_try_def uno_call_def as_uri_def
        storeToURL_def enhance_html_output_bound enhance_html_output_226_def jsonify_def
        example_defs get_uno_context_unfold Let_def
        read_back str_replace_no_CR head_replacement_no_CR)
  show ?thesis
    using docx_response_has_style_block [OF f s r] h r by (simp add: n)
qed

text \<open>
  An exported page without \<^verbatim>\<open><head>\<close>: the conversion succeeds and the answer is the
  page as exported, without the style block.
\<close>

theorem docx_response_without_style_block_counterexample:
  "fst (convert_docx_to_html env_no_head req_docx world0)
     = (jsonify [(''success'', JBool True), (''html'', JStr ''<html><body><p>cv</p></body></html>''),
                 (''hash'', JStr ''digest of <html><body><p>cv</p></body></html>''),
                 (''timestamp'', JFloat 0)], 200)
   \<and> \<not> sublist style_block ''<html><body><p>cv</p></body></html>''"
proof -
  have longer: "length ''<html><body><p>cv</p></body></html>'' < length style_block"
    by (simp add: style_block_def)
  have "\<not> sublist style_block ''<html><body><p>cv</p></body></html>''"
  proof
    assume "sublist style_block ''<html><body><p>cv</p></body></html>''"
    then have "length style_block \<le> length ''<html><body><p>cv</p></body></html>''"
      by (rule sublist_length_le)
    with longer show False by linarith
  qed
  moreover have "fst (convert_docx_to_html env_no_head req_docx world0)
     = (jsonify [(''success'', JBool True), (''html'', JStr ''<html><body><p>cv</p></body></html>''),
                 (''hash'', JStr ''digest of <html><body><p>cv</p></body></html>''),
                 (''timestamp'', JFloat 0)], 200)"
    by (simp add: convert_docx_to_html_def convert_docx_to_html_try_def except_500_def
        seq_defs io_defs convert_defs jsonify_def example_defs get_uno_context_unfold Let_def)
  ultimately show ?thesis by simp
qed

section \<open>The batch endpoint and the content hash\<close>

lemma batch_file_entry:
  "batch_file env part w = (Inr entry, w') \<Longrightarrow> is_entry_for env part entry"
  by (auto simp: batch_file_def seq_defs is_entry_for_def Let_def
      split: sum.splits prod.splits if_splits)

lemma batch_loop_entries:
  "batch_loop env uploads acc w = (Inr results, w') \<Longrightarrow>
     \<exists>new. results = acc @ new \<and> list_all2 (is_entry_for env) uploads new"
proof (induction uploads arbitrary: acc w)
  case Nil
  then show ?case by (simp add: returns_def)
next
  case (Cons part rest)
  from Cons.prems obtain entry w1 where
    e: "batch_file env part w = (Inr entry, w1)"
    and l: "batch_loop env rest (acc @ [entry]) w1 = (Inr results, w')"
    by (auto simp: and_then_def split: sum.splits prod.splits)
  from Cons.IH [OF l] obtain new where
    n: "results = (acc @ [entry]) @ new" "list_all2 (is_entry_for env) rest new"
    by blast
  from batch_file_entry [OF e] n show ?case
    by (intro exI [of _ "entry # new"]) simp
qed

text \<open>
  The result of the conversion a handler makes after its file-system calls depends on
  the world in which the handler started only.
\<close>

lemma docx_to_html_result:
  assumes "resolves w1 = resolves w" "conversions w1 = conversions w"
  shows "fst (docx_to_html env d h w1)
    = (remote_calls_complete env w \<and> uno_props env (conversions w) = None
       \<and> is_absolute env d \<and> is_absolute env h)"
proof -
  have "fst (get_uno_context env (recursion_limit env) w1)
      = fst (get_uno_context env (recursion_limit env) w)"
    using assms(1) by (intro get_uno_context_same_resolver) simp_all
  then show ?thesis
    using assms(2) unfolding docx_to_html_iff remote_calls_complete_def not_isl_iff
    by auto
qed

lemma and_then_Inr:
  assumes "and_then m f w = (Inr y, w')"
  obtains x w1 where "m w = (Inr x, w1)" and "f x w1 = (Inr y, w')"
  using assms by (auto simp: and_then_def split: sum.splits prod.splits)

lemma batch_file_steps:
  assumes "batch_file env part w = (Inr entry, w')"
  shows "\<exists>d h wa wb w1 b w2 u.
      NamedTemporaryFile env ''.docx'' w = (Inr d, wa)
      \<and> file_save env part d wa = (Inr u, wb)
      \<and> NamedTemporaryFile env ''.html'' wb = (Inr h, w1)
      \<and> docx_to_html env d h w1 = (b, w2)
      \<and> entry_reports env part b entry"
proof -
  from assms [unfolded batch_file_def] obtain d wa u wb h w1 b w2 e w3 u1 w4 u2 w5 where
    s1: "NamedTemporaryFile env ''.docx'' w = (Inr d, wa)"
    and s2: "file_save env part d wa = (Inr u, wb)"
    and s3: "NamedTemporaryFile env ''.html'' wb = (Inr h, w1)"
    and c: "no_raise (docx_to_html env d h) w1 = (Inr b, w2)"
    and r: "(if b
             then and_then (open_read env h) (\<lambda>html_content.
                    returns (JObj [(''filename'', JStr (filename part)), (''success'', JBool True),
                                   (''html'', JStr html_content),
                                   (''hash'', JStr (sha256_hexdigest env html_content))]))
             else returns (JObj [(''filename'', JStr (filename part)), (''success'', JBool False),
                                 (''error'', JStr ''Conversion failed'')])) w2 = (Inr e, w3)"
    and "os_unlink env d w3 = (Inr u1, w4)"
    and "os_unlink env h w4 = (Inr u2, w5)"
    and l: "returns e w5 = (Inr entry, w')"
    by (elim and_then_Inr)
  from l have e: "e = entry" by (simp add: returns_def)
  from c have c': "docx_to_html env d h w1 = (b, w2)"
    by (simp add: no_raise_def split: prod.splits)
  have "entry_reports env part b entry"
  proof (cases b)
    case True
    with r obtain html w6 where "open_read env h w2 = (Inr html, w6)"
      and "returns (JObj [(''filename'', JStr (filename part)), (''success'', JBool True),
                          (''html'', JStr html),
                          (''hash'', JStr (sha256_hexdigest env html))]) w6 = (Inr e, w3)"
      by (auto elim: and_then_Inr)
    with True e show ?thesis
      by (auto simp: entry_reports_def returns_def)
  next
    case False
    with r e show ?thesis
      by (simp add: entry_reports_def returns_def)
  qed
  with s1 s2 s3 c' show ?thesis by blast
qed

lemma batch_file_reports:
  assumes "batch_file env part w = (Inr entry, w')"
  shows "entry_reports env part (batch_file_converts env w) entry"
proof -
  from batch_file_steps [OF assms]
  obtain d h wa wb w1 b w2 u where
    s1: "NamedTemporaryFile env ''.docx'' w = (Inr d, wa)"
    and s2: "file_save env part d wa = (Inr u, wb)"
    and s3: "NamedTemporaryFile env ''.html'' wb = (Inr h, w1)"
    and c: "docx_to_html env d h w1 = (b, w2)"
    and e: "entry_reports env part b entry"
    by blast
  have d: "d = temp_name env (io_ops w) ''.docx''" and h: "h = temp_name env (io_ops w + 2) ''.html''"
    using io_count(1) [OF s1] io_count(2) [OF s2] io_count(1) [OF s3] by simp_all
  have "resolves w1 = resolves w" and "conversions w1 = conversions w"
    using io_frame(1) [OF s1] io_frame(5) [OF s2] io_frame(1) [OF s3] by simp_all
  then have "fst (docx_to_html env d h w1) = batch_file_converts env w"
    unfolding batch_file_converts_def d h by (rule docx_to_html_result)
  with c e show ?thesis by simp
qed

lemma batch_loop_world:
  "snd (batch_loop env uploads acc w) = snd (batch_loop env uploads acc' w)"
proof (induction uploads arbitrary: acc acc' w)
  case Nil
  show ?case by (simp add: returns_def)
next
  case (Cons part rest)
  obtain r w1 where a: "batch_file env part w = (r, w1)" by fastforce
  show ?case
  proof (cases r)
    case (Inl e)
    with a show ?thesis by (simp add: and_then_def)
  next
    case (Inr entry)
    with a Cons.IH [of "acc @ [entry]" w1 "acc' @ [entry]"] show ?thesis
      by (simp add: and_then_def)
  qed
qed

lemma batch_loop_reports:
  "batch_loop env uploads acc w = (Inr results, w') \<Longrightarrow>
     \<exists>new. results = acc @ new \<and> length new = length uploads
       \<and> (\<forall>i<length uploads.
             entry_reports env (uploads ! i)
               (batch_file_converts env (world_before env uploads i w)) (new ! i))"
proof (induction uploads arbitrary: acc w)
  case Nil
  then show ?case by (simp add: returns_def)
next
  case (Cons part rest)
  from Cons.prems obtain entry w1 where
    e: "batch_file env part w = (Inr entry, w1)"
    and l: "batch_loop env rest (acc @ [entry]) w1 = (Inr results, w')"
    by (auto simp: and_then_def split: sum.splits prod.splits)
  from Cons.IH [OF l] obtain new where
    n: "results = (acc @ [entry]) @ new" "length new = length rest"
    and r: "\<forall>i<length rest.
             entry_reports env (rest ! i)
               (batch_file_converts env (world_before env rest i w1)) (new ! i)"
    by blast
  have step: "\<And>i. world_before env (part # rest) (Suc i) w = world_before env rest i w1"
    using e batch_loop_world [of env _ "[entry]" w1 "[]"]
    by (simp add: world_before_def and_then_def)
  have first: "world_before env (part # rest) 0 w = w"
    by (simp add: world_before_def returns_def)
  have "\<forall>i<length (part # rest).
             entry_reports env ((part # rest) ! i)
               (batch_file_converts env (world_before env (part # rest) i w)) ((entry # new) ! i)"
  proof (intro allI impI)
    fix i
    assume "i < length (part # rest)"
    then show "entry_reports env ((part # rest) ! i)
               (batch_file_converts env (world_before env (part # rest) i w)) ((entry # new) ! i)"
      using batch_file_reports [OF e] r
      by (cases i) (simp_all add: first step)
  qed
  with n show ?case
    by (intro exI [of _ "entry # new"]) simp
qed

lemma batch_endpoint_reports:
  assumes "getlist ''files'' (files req) = uploads"
    and "uploads \<noteq> []"
    and "snd (fst (batch_convert env req w)) \<noteq> 500"
  shows "\<exists>results.
      fst (batch_convert env req w)
        = (jsonify [(''success'', JBool True), (''results'', JList results),
                    (''processed'', JInt (int (length uploads)))], 200)
      \<and> length results = length uploads
      \<and> list_all2 (is_entry_for env) uploads results
      \<and> (\<forall>i<length uploads.
            entry_reports env (uploads ! i)
              (batch_file_converts env (world_before env uploads i w)) (results ! i))"
proof (cases "batch_loop env uploads [] w")
  case (Pair r w')
  show ?thesis
  proof (cases r)
    case (Inl e)
    with Pair assms show ?thesis
      by (simp add: batch_convert_def batch_convert_try_def except_500_def seq_defs)
  next
    case (Inr results)
    with Pair batch_loop_entries [of env uploads "[]" w results w']
    have l: "list_all2 (is_entry_for env) uploads results" by simp
    then have n: "length results = length uploads" by (simp add: list_all2_lengthD)
    from Pair Inr batch_loop_reports [of env uploads "[]" w results w']
    have "\<forall>i<length uploads.
            entry_reports env (uploads ! i)
              (batch_file_converts env (world_before env uploads i w)) (results ! i)"
      by simp
    with l n Pair Inr assms(1,2) show ?thesis
      by (intro exI [of _ results])
         (simp add: batch_convert_def batch_convert_try_def except_500_def seq_defs)
  qed
qed

text \<open>
  Claim C6. A batch of \<open>n\<close> files that is not answered 500 is answered 200 with
  \<^verbatim>\<open>processed\<close> equal to \<open>n\<close> and a \<^verbatim>\<open>results\<close> list of \<open>n\<close> entries. The entry at each
  position is the entry of the file uploaded at that position, and it reports the
  conversion the loop made for that file: when the conversion succeeded, the file's
  name, \<^verbatim>\<open>success: True\<close>, an \<^verbatim>\<open>html\<close> and the \<^verbatim>\<open>hash\<close> of that html; when it failed,
  the file's name, \<^verbatim>\<open>success: False\<close> and \<^verbatim>\<open>error\<close>.
\<close>

theorem batch_results_in_order:
  assumes "getlist ''files'' (files req) = uploads"
    and "uploads \<noteq> []"
    and "snd (fst (batch_convert env req w)) \<noteq> 500"
  shows "\<exists>results.
      fst (batch_convert env req w)
        = (jsonify [(''success'', JBool True), (''results'', JList results),
                    (''processed'', JInt (int (length uploads)))], 200)
      \<and> length results = length uploads
      \<and> list_all2 (is_entry_for env) uploads results
      \<and> (\<forall>i<length uploads.
            entry_reports env (uploads ! i)
              (batch_file_converts env (world_before env uploads i w)) (results ! i))"
  using assms by (rule batch_endpoint_reports)

lemma second_load_fails_answer:
  "fst (batch_convert env_second_load_fails req_batch2 world0)
     = (jsonify [(''success'', JBool True),
          (''results'', JList
             [JObj [(''filename'', JStr ''cv.docx''), (''success'', JBool True),
                    (''html'', JStr ''<html><body><p>cv</p></body></html>''),
                    (''hash'', JStr ''digest of <html><body><p>cv</p></body></html>'')],
              JObj [(''filename'', JStr ''letter.docx''), (''success'', JBool False),
                    (''error'', JStr ''Conversion failed'')]]),
          (''processed'', JInt 2)], 200)"
  by (simp add: batch_convert_def batch_convert_try_def batch_file_def except_500_def
      getlist_def seq_defs io_defs convert_defs example_defs get_uno_context_unfold Let_def)

lemma second_load_fails_conversions:
  "batch_file_converts env_second_load_fails
     (world_before env_second_load_fails [cv_docx, letter_docx] 0 world0)"
  "\<not> batch_file_converts env_second_load_fails
     (world_before env_second_load_fails [cv_docx, letter_docx] 1 world0)"
  by (simp_all add: batch_file_converts_def remote_calls_complete_def world_before_def
      batch_file_def seq_defs io_defs convert_defs example_defs get_uno_context_unfold Let_def)

text \<open>
  A batch of two files: the first converts, the load of the second fails. The answer
  is 200, with the success entry of the first file and the failure entry of the second,
  in that order.
\<close>

theorem batch_results_in_order_witness:
  "fst (batch_convert env_second_load_fails req_batch2 world0)
     = (jsonify [(''success'', JBool True),
          (''results'', JList
             [JObj [(''filename'', JStr ''cv.docx''), (''success'', JBool True),
                    (''html'', JStr ''<html><body><p>cv</p></body></html>''),
                    (''hash'', JStr ''digest of <html><body><p>cv</p></body></html>'')],
              JObj [(''filename'', JStr ''letter.docx''), (''success'', JBool False),
                    (''error'', JStr ''Conversion failed'')]]),
          (''processed'', JInt 2)], 200)
   \<and> entry_reports env_second_load_fails cv_docx True
        (JObj [(''filename'', JStr ''cv.docx''), (''success'', JBool True),
               (''html'', JStr ''<html><body><p>cv</p></body></html>''),
               (''hash'', JStr ''digest of <html><body><p>cv</p></body></html>'')])
   \<and> entry_reports env_second_load_fails letter_docx False
        (JObj [(''filename'', JStr ''letter.docx''), (''success'', JBool False),
               (''error'', JStr ''Conversion failed'')])"
proof -
  have a: "getlist ''files'' (files req_batch2) = [cv_docx, letter_docx]"
    by (simp add: getlist_def req_batch2_def)
  have b: "snd (fst (batch_convert env_second_load_fails req_batch2 world0)) \<noteq> 500"
    by (simp add: second_load_fails_answer)
  from batch_results_in_order [OF a _ b] obtain results where
    r: "fst (batch_convert env_second_load_fails req_batch2 world0)
        = (jsonify [(''success'', JBool True), (''results'', JList results),
                    (''processed'', JInt (int (length [cv_docx, letter_docx])))], 200)"
    and e: "\<forall>i<length [cv_docx, letter_docx].
            entry_reports env_second_load_fails ([cv_docx, letter_docx] ! i)
              (batch_file_converts env_second_load_fails
                 (world_before env_second_load_fails [cv_docx, letter_docx] i world0))
              (results ! i)"
    by auto
  from r have results: "results =
             [JObj [(''filename'', JStr ''cv.docx''), (''success'', JBool True),
                    (''html'', JStr ''<html><body><p>cv</p></body></html>''),
                    (''hash'', JStr ''digest of <html><body><p>cv</p></body></html>'')],
              JObj [(''filename'', JStr ''letter.docx''), (''success'', JBool False),
                    (''error'', JStr ''Conversion failed'')]]"
    by (simp add: second_load_fails_answer jsonify_def)
  from e [rule_format, of 0] have "entry_reports env_second_load_fails cv_docx
              (batch_file_converts env_second_load_fails
                 (world_before env_second_load_fails [cv_docx, letter_docx] 0 world0))
              (results ! 0)"
    by simp
  moreover from e [rule_format, of 1] have "entry_reports env_second_load_fails letter_docx
              (batch_file_converts env_second_load_fails
                 (world_before env_second_load_fails [cv_docx, letter_docx] 1 world0))
              (results ! 1)"
    by simp
  ultimately show ?thesis
    using second_load_fails_answer
    by (simp add: second_load_fails_conversions [unfolded One_nat_def] results)
qed

text \<open>
  Claim C4, as the code has it. At each of the three conversion endpoints an exception
  raised in the handler's \<^verbatim>\<open>try\<close> is answered 500 with \<^verbatim>\<open>{'error': str(e)}\<close>, so no
  request leaves a handler as an exception: so it is when the first file-system call of
  a DOCX or batch request faults, and when \<^verbatim>\<open>get_json\<close> raises. At the two single-file
  endpoints a request that carries its input and whose conversion fails (a remote call
  of the conversion raises) is answered 500 with a JSON error as well. At the batch
  endpoint a conversion that fails raises nothing: when no exception is raised in the
  batch, the answer is 200 and the entry of that file is the failure entry.
\<close>

theorem failures_answer_500:
  "(convert_docx_to_html_try env req w = (Inl e, w') \<longrightarrow>
      convert_docx_to_html env req w = ((jsonify [(''error'', JStr (exn_str e))], 500), w'))
   \<and> (convert_html_to_docx_try env req w = (Inl e, w') \<longrightarrow>
      convert_html_to_docx env req w = ((jsonify [(''error'', JStr (exn_str e))], 500), w'))
   \<and> (batch_convert_try env req w = (Inl e, w') \<longrightarrow>
      batch_convert env req w = ((jsonify [(''error'', JStr (exn_str e))], 500), w'))
   \<and> (map_of (files req) ''file'' = Some part \<and> filename part \<noteq> []
        \<and> \<not> (remote_calls_complete env w \<and> uno_props env (conversions w) = None) \<longrightarrow>
      (\<exists>msg. fst (convert_docx_to_html env req w) = (jsonify [(''error'', JStr msg)], 500)))
   \<and> (get_json req = Inr (JObj items) \<and> map_of items ''html'' = Some v
        \<and> \<not> remote_calls_complete env w \<longrightarrow>
      (\<exists>msg. fst (convert_html_to_docx env req w) = (jsonify [(''error'', JStr msg)], 500)))
   \<and> (getlist ''files'' (files req) = uploads \<and> uploads \<noteq> []
        \<and> snd (fst (batch_convert env req w)) \<noteq> 500 \<and> i < length uploads
        \<and> \<not> batch_file_converts env (world_before env uploads i w) \<longrightarrow>
      (\<exists>results.
         fst (batch_convert env req w)
           = (jsonify [(''success'', JBool True), (''results'', JList results),
                       (''processed'', JInt (int (length uploads)))], 200)
         \<and> results ! i = JObj [(''filename'', JStr (filename (uploads ! i))),
                                (''success'', JBool False),
                                (''error'', JStr ''Conversion failed'')]))
   \<and> (map_of (files req) ''file'' = Some part \<and> filename part \<noteq> []
        \<and> io_fault env (io_ops w) = Some e \<longrightarrow>
      fst (convert_docx_to_html env req w) = (jsonify [(''error'', JStr (exn_str e))], 500))
   \<and> (get_json req = Inl e \<longrightarrow>
      convert_html_to_docx env req w = ((jsonify [(''error'', JStr (exn_str e))], 500), w))
   \<and> (getlist ''files'' (files req) \<noteq> [] \<and> io_fault env (io_ops w) = Some e \<longrightarrow>
      fst (batch_convert env req w) = (jsonify [(''error'', JStr (exn_str e))], 500))"
proof -
  have batch: "getlist ''files'' (files req) = uploads \<and> uploads \<noteq> []
        \<and> snd (fst (batch_convert env req w)) \<noteq> 500 \<and> i < length uploads
        \<and> \<not> batch_file_converts env (world_before env uploads i w) \<longrightarrow>
      (\<exists>results.
         fst (batch_convert env req w)
           = (jsonify [(''success'', JBool True), (''results'', JList results),
                       (''processed'', JInt (int (length uploads)))], 200)
         \<and> results ! i = JObj [(''filename'', JStr (filename (uploads ! i))),
                                (''success'', JBool False),
                                (''error'', JStr ''Conversion failed'')])"
  proof
    assume h: "getlist ''files'' (files req) = uploads \<and> uploads \<noteq> []
        \<and> snd (fst (batch_convert env req w)) \<noteq> 500 \<and> i < length uploads
        \<and> \<not> batch_file_converts env (world_before env uploads i w)"
    then have a: "getlist ''files'' (files req) = uploads" and b: "uploads \<noteq> []"
      and c: "snd (fst (batch_convert env req w)) \<noteq> 500" by simp_all
    from batch_endpoint_reports [OF a b c] obtain results where
      r: "fst (batch_convert env req w)
           = (jsonify [(''success'', JBool True), (''results'', JList results),
                       (''processed'', JInt (int (length uploads)))], 200)"
      and e: "\<forall>i<length uploads.
            entry_reports env (uploads ! i)
              (batch_file_converts env (world_before env uploads i w)) (results ! i)"
      by blast
    from e h have "results ! i = JObj [(''filename'', JStr (filename (uploads ! i))),
                                (''success'', JBool False),
                                (''error'', JStr ''Conversion failed'')]"
      by (auto simp: entry_reports_def)
    with r show "\<exists>results.
         fst (batch_convert env req w)
           = (jsonify [(''success'', JBool True), (''results'', JList results),
                       (''processed'', JInt (int (length uploads)))], 200)
         \<and> results ! i = JObj [(''filename'', JStr (filename (uploads ! i))),
                                (''success'', JBool False),
                                (''error'', JStr ''Conversion failed'')]"
      by blast
  qed
  have docx_fault: "map_of (files req) ''file'' = Some part \<and> filename part \<noteq> []
        \<and> io_fault env (io_ops w) = Some e \<longrightarrow>
      fst (convert_docx_to_html env req w) = (jsonify [(''error'', JStr (exn_str e))], 500)"
    by (simp add: convert_docx_to_html_def convert_docx_to_html_try_def except_500_def
        seq_defs NamedTemporaryFile_def Let_def)
  have json_raises: "get_json req = Inl e \<longrightarrow>
      convert_html_to_docx env req w = ((jsonify [(''error'', JStr (exn_str e))], 500), w)"
    by (simp add: convert_html_to_docx_def convert_html_to_docx_try_def except_500_def seq_defs)
  have batch_fault: "getlist ''files'' (files req) \<noteq> [] \<and> io_fault env (io_ops w) = Some e \<longrightarrow>
      fst (batch_convert env req w) = (jsonify [(''error'', JStr (exn_str e))], 500)"
    by (cases "getlist ''files'' (files req)")
       (simp_all add: batch_convert_def batch_convert_try_def batch_file_def except_500_def
          seq_defs NamedTemporaryFile_def Let_def)
  show ?thesis
    using docx_endpoint_conversion_fails [of req part env w]
      html_endpoint_conversion_fails [of req items v env w]
      batch docx_fault json_raises batch_fault
    by (simp add: convert_docx_to_html_def convert_html_to_docx_def batch_convert_def
        except_500_def)
qed

text \<open>
  The load fails: the DOCX endpoint and the HTML endpoint answer 500; a JSON body the
  parser rejects is answered 500 with the message of the exception. In a batch of two
  files where the load of the second fails and nothing raises, the answer is 200 and
  the second entry is the failure entry.
\<close>

theorem failures_answer_500_witness:
  "(\<exists>msg. fst (convert_docx_to_html env_load_fails req_docx world0)
      = (jsonify [(''error'', JStr msg)], 500))
   \<and> (\<exists>msg. fst (convert_html_to_docx env_load_fails req_html world0)
      = (jsonify [(''error'', JStr msg)], 500))
   \<and> convert_html_to_docx env_load_fails req_docx world0
      = ((jsonify [(''error'', JStr ''415 Unsupported Media Type'')], 500), world0)
   \<and> (\<exists>results.
         fst (batch_convert env_second_load_fails req_batch2 world0)
           = (jsonify [(''success'', JBool True), (''results'', JList results),
                       (''processed'', JInt 2)], 200)
         \<and> results ! 1 = JObj [(''filename'', JStr ''letter.docx''),
                                (''success'', JBool False),
                                (''error'', JStr ''Conversion failed'')])"
proof -
  have single: "(\<exists>msg. fst (convert_docx_to_html env_load_fails req_docx world0)
      = (jsonify [(''error'', JStr msg)], 500))
   \<and> (\<exists>msg. fst (convert_html_to_docx env_load_fails req_html world0)
      = (jsonify [(''error'', JStr msg)], 500))
   \<and> convert_html_to_docx env_load_fails req_docx world0
      = ((jsonify [(''error'', JStr ''415 Unsupported Media Type'')], 500), world0)"
    using failures_answer_500 [where env = env_load_fails and req = req_docx and w = world0
        and part = cv_docx and e = "Exn OtherException ''415 Unsupported Media Type''"
        and w' = world0]
      failures_answer_500 [where env = env_load_fails and req = req_html and w = world0
        and items = "[(''html'', JStr ''<p>cv</p>'')]" and v = "JStr ''<p>cv</p>''"]
    by (simp add: remote_calls_complete_def example_defs convert_html_to_docx_try_def seq_defs)
  have a: "getlist ''files'' (files req_batch2) = [cv_docx, letter_docx]"
    by (simp add: getlist_def req_batch2_def)
  have b: "snd (fst (batch_convert env_second_load_fails req_batch2 world0)) \<noteq> 500"
    by (simp add: second_load_fails_answer)
  from failures_answer_500 [where env = env_second_load_fails and req = req_batch2
      and w = world0 and uploads = "[cv_docx, letter_docx]" and i = 1,
      THEN conjunct2, THEN conjunct2, THEN conjunct2, THEN conjunct2, THEN conjunct2,
      THEN conjunct1, THEN mp]
    a b second_load_fails_conversions(2)
  have "\<exists>results.
         fst (batch_convert env_second_load_fails req_batch2 world0)
           = (jsonify [(''success'', JBool True), (''results'', JList results),
                       (''processed'', JInt (int (length [cv_docx, letter_docx])))], 200)
         \<and> results ! 1 = JObj [(''filename'', JStr (filename ([cv_docx, letter_docx] ! 1))),
                                (''success'', JBool False),
                                (''error'', JStr ''Conversion failed'')]"
    by simp
  then have "\<exists>results.
         fst (batch_convert env_second_load_fails req_batch2 world0)
           = (jsonify [(''success'', JBool True), (''results'', JList results),
                       (''processed'', JInt 2)], 200)
         \<and> results ! 1 = JObj [(''filename'', JStr ''letter.docx''),
                                (''success'', JBool False),
                                (''error'', JStr ''Conversion failed'')]"
    by (simp add: letter_docx_def)
  with single show ?thesis by blast
qed

text \<open>
  The same failing load in a batch of one file: the answer is 200, with the failure in
  the entry of the file.
\<close>

theorem batch_failure_is_200_counterexample:
  "\<not> fst (docx_to_html env_load_fails ''/tmp/tmp.docx'' ''/tmp/tmpxx.html'' world0)
   \<and> fst (batch_convert env_load_fails req_batch world0)
      = (jsonify [(''success'', JBool True),
                  (''results'', JList [JObj [(''filename'', JStr ''cv.docx''),
                     (''success'', JBool False), (''error'', JStr ''Conversion failed'')]]),
                  (''processed'', JInt 1)], 200)"
  by (simp add: batch_convert_def batch_convert_try_def batch_file_def except_500_def getlist_def
      seq_defs io_defs convert_defs example_defs get_uno_context_unfold Let_def)

lemma sha_start [simp]:
  "start_libreoffice_service (env\<lparr>sha256_hexdigest := other\<rparr>) w = start_libreoffice_service env w"
  by (simp add: start_libreoffice_service_def Let_def split: option.splits)

lemma sha_get_uno_context_at:
  "get_uno_context (env\<lparr>sha256_hexdigest := other\<rparr>) depth w = get_uno_context env depth w"
  by (induction depth arbitrary: w) (simp_all add: Let_def split: sum.splits)

lemma sha_get_uno_context [simp]:
  "get_uno_context (env\<lparr>sha256_hexdigest := other\<rparr>) depth = get_uno_context env depth"
  by (rule ext) (rule sha_get_uno_context_at)

lemma sha_to_linesep [simp]:
  "to_linesep (env\<lparr>sha256_hexdigest := other\<rparr>) s = to_linesep env s"
  unfolding to_linesep_def linesep_def by simp

lemma sha_io [simp]:
  "NamedTemporaryFile (env\<lparr>sha256_hexdigest := other\<rparr>) sfx = NamedTemporaryFile env sfx"
  "open_read (env\<lparr>sha256_hexdigest := other\<rparr>) p = open_read env p"
  "open_write (env\<lparr>sha256_hexdigest := other\<rparr>) p c = open_write env p c"
  "os_unlink (env\<lparr>sha256_hexdigest := other\<rparr>) p = os_unlink env p"
  "file_save (env\<lparr>sha256_hexdigest := other\<rparr>) part p = file_save env part p"
  by (simp_all add: file_defs fun_eq_iff Let_def split: option.splits)

lemma sha_convert [simp]:
  "as_uri (env\<lparr>sha256_hexdigest := other\<rparr>) p = as_uri env p"
  "storeToURL (env\<lparr>sha256_hexdigest := other\<rparr>) j p = storeToURL env j p"
  "enhance_html_output (env\<lparr>sha256_hexdigest := other\<rparr>) p = enhance_html_output env p"
  by (simp_all add: as_uri_def storeToURL_def fun_eq_iff enhance_html_output_bound
      enhance_html_output_226_def)

lemma sha_docx_to_html [simp]:
  "docx_to_html (env\<lparr>sha256_hexdigest := other\<rparr>) docx_path html_path
     = docx_to_html env docx_path html_path"
  by (simp add: fun_eq_iff docx_to_html_def docx_to_html_try_def)

lemma sha_docx_endpoint:
  "snd (convert_docx_to_html (env\<lparr>sha256_hexdigest := other\<rparr>) req w)
     = snd (convert_docx_to_html env req w)"
  by (simp add: convert_docx_to_html_def convert_docx_to_html_try_def except_500_def seq_defs
      Let_def split: option.splits sum.splits prod.splits)

lemma sha_batch_file:
  "snd (batch_file (env\<lparr>sha256_hexdigest := other\<rparr>) part w) = snd (batch_file env part w)
   \<and> isl (fst (batch_file (env\<lparr>sha256_hexdigest := other\<rparr>) part w))
       = isl (fst (batch_file env part w))"
  by (simp add: batch_file_def seq_defs Let_def split: option.splits sum.splits prod.splits)

lemma sha_batch_loop:
  "snd (batch_loop (env\<lparr>sha256_hexdigest := other\<rparr>) uploads acc' w)
     = snd (batch_loop env uploads acc w)
   \<and> isl (fst (batch_loop (env\<lparr>sha256_hexdigest := other\<rparr>) uploads acc' w))
       = isl (fst (batch_loop env uploads acc w))"
proof (induction uploads arbitrary: acc acc' w)
  case Nil
  show ?case by (simp add: returns_def)
next
  case (Cons part rest)
  let ?env' = "env\<lparr>sha256_hexdigest := other\<rparr>"
  obtain r w1 where a: "batch_file env part w = (r, w1)" by fastforce
  obtain r' w1' where b: "batch_file ?env' part w = (r', w1')" by fastforce
  from sha_batch_file [where env = env and other = other and part = part and w = w] a b
  have w: "w1' = w1" and i: "isl r' = isl r" by simp_all
  show ?case
  proof (cases r)
    case (Inl e)
    with i obtain e' where "r' = Inl e'" by (cases r') auto
    with Inl a b w show ?thesis by (simp add: and_then_def)
  next
    case (Inr entry)
    with i obtain entry' where "r' = Inr entry'" by (cases r') auto
    with Inr a b w Cons.IH [where acc' = "acc' @ [entry']" and w = w1 and acc = "acc @ [entry]"] show ?thesis
      by (simp add: and_then_def)
  qed
qed

lemma sha_batch_endpoint:
  "snd (batch_convert (env\<lparr>sha256_hexdigest := other\<rparr>) req w) = snd (batch_convert env req w)"
proof -
  let ?env' = "env\<lparr>sha256_hexdigest := other\<rparr>"
  let ?uploads = "getlist ''files'' (files req)"
  from sha_batch_loop [where env = env and other = other and uploads = ?uploads
      and acc = "[]" and acc' = "[]" and w = w]
  show ?thesis
    by (cases "batch_loop env ?uploads [] w"; cases "batch_loop ?env' ?uploads [] w")
       (auto simp: batch_convert_def batch_convert_try_def except_500_def seq_defs Let_def
          split: sum.splits)
qed

lemma entry_hash:
  assumes "is_entry_for env part entry" "json_getitem entry ''success'' = Inr (JBool True)"
  shows "\<exists>html. json_getitem entry ''html'' = Inr (JStr html)
     \<and> json_getitem entry ''hash'' = Inr (JStr (sha256_hexdigest env html))"
  using assms
  by (auto simp: is_entry_for_def split: sum.splits json.splits)

lemma batch_endpoint_success:
  assumes "fst (batch_convert env req w) = (Json (JObj items), 200)"
  shows "\<exists>results. items = [(''success'', JBool True), (''results'', JList results),
                    (''processed'', JInt (int (length results)))]
     \<and> list_all2 (is_entry_for env) (getlist ''files'' (files req)) results"
proof (cases "batch_loop env (getlist ''files'' (files req)) [] w")
  case (Pair r w')
  show ?thesis
  proof (cases r)
    case (Inl e)
    with Pair assms show ?thesis
      by (simp add: batch_convert_def batch_convert_try_def except_500_def seq_defs Let_def
          split: if_splits)
  next
    case (Inr results)
    with Pair batch_loop_entries [of env "getlist ''files'' (files req)" "[]" w results w']
    have "list_all2 (is_entry_for env) (getlist ''files'' (files req)) results" by simp
    with Pair Inr assms show ?thesis
      by (auto simp: batch_convert_def batch_convert_try_def except_500_def seq_defs Let_def
          jsonify_def split: if_splits)
  qed
qed

text \<open>
  Claim C7. In a successful answer of the single-file endpoint, and in every successful
  entry of a batch answer, \<^verbatim>\<open>hash\<close> is \<^verbatim>\<open>hashlib\<close>'s SHA-256 hex digest of the UTF-8
  encoding of the \<^verbatim>\<open>html\<close> beside it (the digest function is the oracle
  \<open>sha256_hexdigest\<close>, applied to the encoded text). The hash goes nowhere else: with
  any other digest function in its place both endpoints leave the same world behind.
\<close>

theorem hash_is_digest_of_html:
  "(fst (convert_docx_to_html env req w) = (Json (JObj items), 200) \<longrightarrow>
      (\<exists>html. map_of items ''html'' = Some (JStr html)
         \<and> map_of items ''hash'' = Some (JStr (sha256_hexdigest env html))))
   \<and> (fst (batch_convert env req w) = (Json (JObj items), 200) \<longrightarrow>
      (\<exists>results. map_of items ''results'' = Some (JList results)
         \<and> (\<forall>entry \<in> set results.
               json_getitem entry ''success'' = Inr (JBool True) \<longrightarrow>
               (\<exists>html. json_getitem entry ''html'' = Inr (JStr html)
                  \<and> json_getitem entry ''hash'' = Inr (JStr (sha256_hexdigest env html))))))
   \<and> snd (convert_docx_to_html (env\<lparr>sha256_hexdigest := other\<rparr>) req w)
       = snd (convert_docx_to_html env req w)
   \<and> snd (batch_convert (env\<lparr>sha256_hexdigest := other\<rparr>) req w)
       = snd (batch_convert env req w)"
proof (intro conjI impI)
  assume "fst (convert_docx_to_html env req w) = (Json (JObj items), 200)"
  from docx_endpoint_success [OF this]
  show "\<exists>html. map_of items ''html'' = Some (JStr html)
         \<and> map_of items ''hash'' = Some (JStr (sha256_hexdigest env html))"
    by auto
next
  assume "fst (batch_convert env req w) = (Json (JObj items), 200)"
  from batch_endpoint_success [OF this] obtain results where
    i: "items = [(''success'', JBool True), (''results'', JList results),
                    (''processed'', JInt (int (length results)))]"
    and l: "list_all2 (is_entry_for env) (getlist ''files'' (files req)) results"
    by blast
  have "\<forall>entry \<in> set results.
               json_getitem entry ''success'' = Inr (JBool True) \<longrightarrow>
               (\<exists>html. json_getitem entry ''html'' = Inr (JStr html)
                  \<and> json_getitem entry ''hash'' = Inr (JStr (sha256_hexdigest env html)))"
  proof (intro ballI impI)
    fix entry
    assume "entry \<in> set results" and s: "json_getitem entry ''success'' = Inr (JBool True)"
    with l obtain part where "is_entry_for env part entry"
      by (auto simp: list_all2_conv_all_nth in_set_conv_nth)
    from entry_hash [OF this s]
    show "\<exists>html. json_getitem entry ''html'' = Inr (JStr html)
                  \<and> json_getitem entry ''hash'' = Inr (JStr (sha256_hexdigest env html))" .
  qed
  with i show "\<exists>results. map_of items ''results'' = Some (JList results)
         \<and> (\<forall>entry \<in> set results.
               json_getitem entry ''success'' = Inr (JBool True) \<longrightarrow>
               (\<exists>html. json_getitem entry ''html'' = Inr (JStr html)
                  \<and> json_getitem entry ''hash'' = Inr (JStr (sha256_hexdigest env html))))"
    by simp
qed (rule sha_docx_endpoint sha_batch_endpoint)+

text \<open>A successful single-file answer, and the same world under a constant digest.\<close>

theorem hash_is_digest_of_html_witness:
  "(\<exists>items html.
      fst (convert_docx_to_html env_no_head req_docx world0) = (Json (JObj items), 200)
      \<and> map_of items ''html'' = Some (JStr html)
      \<and> map_of items ''hash'' = Some (JStr (sha256_hexdigest env_no_head html)))
   \<and> snd (convert_docx_to_html (env_no_head\<lparr>sha256_hexdigest := (\<lambda>bytes. [])\<rparr>) req_docx world0)
       = snd (convert_docx_to_html env_no_head req_docx world0)"
proof -
  have r: "fst (convert_docx_to_html env_no_head req_docx world0)
     = (Json (JObj [(''success'', JBool True),
                    (''html'', JStr ''<html><body><p>cv</p></body></html>''),
                    (''hash'', JStr ''digest of <html><body><p>cv</p></body></html>''),
                    (''timestamp'', JFloat 0)]), 200)"
    by (simp add: convert_docx_to_html_def convert_docx_to_html_try_def except_500_def
        seq_defs io_defs convert_defs jsonify_def example_defs get_uno_context_unfold Let_def)
  from hash_is_digest_of_html [where env = env_no_head and req = req_docx and w = world0
      and other = "\<lambda>bytes. []", THEN conjunct1, THEN mp, OF r]
    hash_is_digest_of_html [where env = env_no_head and req = req_docx and w = world0
      and other = "\<lambda>bytes. []" and items = "[]", THEN conjunct2, THEN conjunct2, THEN conjunct1]
    r
  show ?thesis by blast
qed


end
